theory Spec2Isabelle
  imports Complex_Main "HOL-Library.AList"
begin

section \<open>JavaScript numbers\<close>

text \<open>
  The program computes with JavaScript numbers. XP values and counters are integers and
  are modelled as \<open>int\<close>; the scores derived from them by division and by the weights
  0.8, 0.6, 0.4, ... are modelled by exact rationals, and the one non-number that the code
  can produce, \<open>NaN\<close> from \<open>0 / 0\<close>, by \<open>None\<close>.

  \<open>Math.round\<close> rounds to the nearest integer, a tie going up.
\<close>

definition Math_round :: "rat \<Rightarrow> int" where
  "Math_round x = \<lfloor>x + 1 / 2\<rfloor>"

section \<open>Predictive analytics: calculateHollywoodProbability\<close>

record breakdown =
  b_consistency :: int
  b_opportunities :: int
  b_callbacks :: int
  b_bookings :: int

record probability =
  p_total :: int
  p_breakdown :: breakdown

text \<open>
  The four counters are read from the page with \<open>parseInt(...) || 0\<close>; they are the
  arguments here.
\<close>

definition consistencyScore :: "int \<Rightarrow> rat" where
  "consistencyScore streak = min (of_int streak * (8 / 10)) 20"

definition opportunitiesScore :: "int \<Rightarrow> rat" where
  "opportunitiesScore tier1Auditions = min (of_int tier1Auditions * (6 / 10)) 30"

definition callbacksScore :: "int \<Rightarrow> rat" where
  "callbacksScore callbacks = min (of_int callbacks * 4) 30"

definition bookingsScore :: "int \<Rightarrow> rat" where
  "bookingsScore roles = min (of_int roles * 20) 20"

definition totalProbability :: "int \<Rightarrow> int \<Rightarrow> int \<Rightarrow> int \<Rightarrow> rat" where
  "totalProbability streak tier1Auditions callbacks roles =
     min (consistencyScore streak + opportunitiesScore tier1Auditions
          + callbacksScore callbacks + bookingsScore roles) 95"

definition calculateHollywoodProbability :: "int \<Rightarrow> int \<Rightarrow> int \<Rightarrow> int \<Rightarrow> probability" where
  "calculateHollywoodProbability streak tier1Auditions callbacks roles =
     \<lparr> p_total = Math_round (totalProbability streak tier1Auditions callbacks roles),
       p_breakdown = \<lparr> b_consistency = Math_round (consistencyScore streak),
                       b_opportunities = Math_round (opportunitiesScore tier1Auditions),
                       b_callbacks = Math_round (callbacksScore callbacks),
                       b_bookings = Math_round (bookingsScore roles) \<rparr> \<rparr>"

section \<open>Configuration tables\<close>

text \<open>\<open>Object.keys(DOMAINS)\<close>, in the order of the object literal; every target is 40.\<close>

definition DOMAINS :: "(string \<times> int) list" where
  "DOMAINS = [(''creation'', 40), (''physical'', 40), (''meditation'', 40), (''recovery'', 40)]"

definition DOMAIN_keys :: "string list" where
  "DOMAIN_keys = map fst DOMAINS"

text \<open>\<open>TASK_CATEGORIES\<close>: the \<open>domain\<close> field of each category.\<close>

definition TASK_CATEGORIES :: "(string \<times> string) list" where
  "TASK_CATEGORIES =
    [(''act'', ''creation''), (''study'', ''creation''), (''create'', ''creation''),
     (''network'', ''creation''), (''reading'', ''creation''), (''writing'', ''creation''),
     (''voice'', ''creation''),
     (''marts'', ''physical''), (''cardio'', ''physical''), (''gym'', ''physical''),
     (''yoga'', ''physical''), (''dance'', ''physical''), (''stretch'', ''physical''),
     (''meditation'', ''meditation''), (''breathwork'', ''meditation''),
     (''visualization'', ''meditation''), (''mindfulness'', ''meditation''),
     (''sleep'', ''recovery''), (''nutrition'', ''recovery''), (''recovery'', ''recovery''),
     (''planning'', ''recovery''),
     (''scary'', ''special''), (''critical'', ''special'')]"

section \<open>Daily records\<close>

record Task =
  task_id :: int
  task_text :: string
  task_category :: string
  task_xp :: int
  task_completed :: bool
  task_timestamp :: string
  task_updated :: "string option"

record Activity =
  act_category :: string
  act_xp :: int
  act_timestamp :: string
  act_quick :: bool

record DomainActivity =
  total :: int
  activities :: "Activity list"

text \<open>
  A well-formed daily record as \<open>safeLocalStorageGet\<close> hands it to its callers: \<open>tasks\<close>
  is an array, \<open>domains\<close> an object (its keys in insertion order), \<open>alignment\<close> a boolean,
  and \<open>totalXP\<close>, \<open>alignmentReason\<close> and \<open>alignmentTime\<close> are present only once written.
\<close>

record DailyRecord =
  tasks :: "Task list"
  domains :: "(string \<times> DomainActivity) list"
  alignment :: bool
  alignmentReason :: "string option"
  alignmentTime :: "string option"
  totalXP :: "int option"

section \<open>The record store\<close>

text \<open>
  \<open>localStorage\<close> is an ordered list of key/value pairs with distinct keys:
  \<open>localStorage.key(i)\<close> is the key at position \<open>i\<close>, \<open>getItem\<close> is \<^const>\<open>map_of\<close>,
  \<open>setItem\<close> is \<^const>\<open>AList.update\<close> and \<open>removeItem\<close> is \<^const>\<open>AList.delete\<close>.

  The functions that work on daily records see the store through \<open>safeLocalStorageGet\<close>
  and so through \<open>JSON.parse\<close>; for them the store holds the parsed records. A calendar
  date \<open>YYYY-MM-DD\<close> is written as its day number, the number of days from 1970-01-01 to
  it, and the key \<open>'mastery_' + <date>\<close> is that number.
\<close>

type_synonym ('k, 'v) storage = "('k \<times> 'v) list"

type_synonym dayStore = "(int, DailyRecord) storage"

text \<open>The fallback \<open>{}\<close>: no tasks, no domains, \<open>alignment\<close> falsy, no cached total.\<close>

definition emptyRecord :: DailyRecord where
  "emptyRecord = \<lparr> tasks = [], domains = [], alignment = False, alignmentReason = None,
                    alignmentTime = None, totalXP = None \<rparr>"

definition safeLocalStorageGet_day :: "dayStore \<Rightarrow> int \<Rightarrow> DailyRecord" where
  "safeLocalStorageGet_day s day = (case map_of s day of None \<Rightarrow> emptyRecord | Some r \<Rightarrow> r)"

text \<open>The sum over \<open>data.tasks\<close> of the XP of the completed tasks.\<close>

definition completedTaskXP :: "Task list \<Rightarrow> int" where
  "completedTaskXP ts = sum_list (map task_xp (filter task_completed ts))"

text \<open>\<open>data.domains?.[domain]?.total || 0\<close>\<close>

definition domainTotal :: "DailyRecord \<Rightarrow> string \<Rightarrow> int" where
  "domainTotal data domain = (case map_of (domains data) domain of None \<Rightarrow> 0 | Some a \<Rightarrow> total a)"

section \<open>Dates\<close>

text \<open>
  A \<open>Date\<close> holds a time value, the milliseconds since 1970-01-01T00:00Z. The time zone
  of the platform is a parameter, in the form of ECMAScript's \<open>LocalTZA(t, isUTC)\<close>: the
  offset of local time in milliseconds, at the UTC time value \<open>t\<close> when \<open>isUTC\<close> is true and
  at the local time value \<open>t\<close> otherwise.
\<close>

type_synonym zone = "int \<Rightarrow> bool \<Rightarrow> int"

definition msPerDay :: int where
  "msPerDay = 86400000"

definition msPerHour :: int where
  "msPerHour = 3600000"

definition LocalTime :: "zone \<Rightarrow> int \<Rightarrow> int" where
  "LocalTime LocalTZA t = t + LocalTZA t True"

definition UTC :: "zone \<Rightarrow> int \<Rightarrow> int" where
  "UTC LocalTZA t = t - LocalTZA t False"

text \<open>\<open>toISOString().split('T')[0]\<close>: the calendar date of a time value in UTC.\<close>

definition dateString :: "int \<Rightarrow> int" where
  "dateString t = t div msPerDay"

definition getToday :: "int \<Rightarrow> int" where
  "getToday now = dateString now"

text \<open>\<open>getHours()\<close>: the hour of the local time.\<close>

definition getHours :: "zone \<Rightarrow> int \<Rightarrow> int" where
  "getHours LocalTZA t = (LocalTime LocalTZA t div msPerHour) mod 24"

text \<open>
  The time value of \<open>date\<close> after \<open>date = new Date(now); date.setDate(now.getDate() - i)\<close>.
  \<open>setDate\<close> works on the local time: it keeps the time within the day and makes the day
  that of the first of the month plus \<open>now.getDate() - i - 1\<close>, which is the local day of
  \<open>now\<close> less \<open>i\<close>; the result is taken back to UTC with the offset of that local time.
\<close>

definition daysBefore :: "zone \<Rightarrow> int \<Rightarrow> nat \<Rightarrow> int" where
  "daysBefore LocalTZA now i = UTC LocalTZA (LocalTime LocalTZA now - int i * msPerDay)"

section \<open>The seven-day window\<close>

record DayEntry =
  day_date :: int
  day_totalXP :: int
  day_domains :: "(string \<times> int) list"
  day_alignment :: bool

definition dayEntry :: "dayStore \<Rightarrow> int \<Rightarrow> DayEntry" where
  "dayEntry s date =
     (let data = safeLocalStorageGet_day s date;
          doms = map (\<lambda>domain. (domain, domainTotal data domain)) DOMAIN_keys
      in \<lparr> day_date = date,
           day_totalXP = sum_list (map snd doms) + completedTaskXP (tasks data),
           day_domains = doms,
           day_alignment = alignment data \<rparr>)"

text \<open>
  The loop \<open>for (let i = 0; i < 7; i++)\<close>: the date of entry \<open>i\<close> is the UTC date of the
  time value that \<open>setDate\<close> leaves.
\<close>

definition getLast7DaysData :: "zone \<Rightarrow> dayStore \<Rightarrow> int \<Rightarrow> DayEntry list" where
  "getLast7DaysData LocalTZA s now =
     map (\<lambda>i. dayEntry s (dateString (daysBefore LocalTZA now i))) [0..<7]"

section \<open>Momentum score\<close>

record Factors =
  consistency :: rat
  growth :: "rat option"
  balance :: "rat option"
  intensity :: rat

record Momentum =
  score :: "int option"
  trend :: string
  recommendation :: string
  factors :: "Factors option"

definition calculateConsistencyScore :: "DayEntry list \<Rightarrow> rat" where
  "calculateConsistencyScore days =
     (of_nat (length (filter (\<lambda>day. 160 \<le> day_totalXP day) days)) / 7) * 100"

text \<open>
  \<open>xs.reduce((sum, day) => sum + day.totalXP, 0) / xs.length\<close>: for the empty list this is
  \<open>0 / 0\<close>, which is \<open>NaN\<close>.
\<close>

definition averageXP :: "DayEntry list \<Rightarrow> rat option" where
  "averageXP xs =
     (if xs = [] then None
      else Some (of_int (sum_list (map day_totalXP xs)) / of_nat (length xs)))"

text \<open>
  \<open>olderAvg === 0\<close> is false for \<open>NaN\<close>, and \<open>Math.min\<close> and \<open>Math.max\<close> return \<open>NaN\<close> when an
  argument is \<open>NaN\<close>; \<open>recentAvg > 0\<close> is false for \<open>NaN\<close>.
\<close>

definition calculateGrowthScore :: "DayEntry list \<Rightarrow> rat option" where
  "calculateGrowthScore days =
     (if length days < 2 then Some 50
      else
        (let recentAvg = averageXP (take 3 days);
             olderAvg = averageXP (drop 3 days)
         in case olderAvg of
              None \<Rightarrow> None
            | Some older \<Rightarrow>
                if older = 0
                then Some (case recentAvg of None \<Rightarrow> 0
                           | Some recent \<Rightarrow> if 0 < recent then 100 else 0)
                else (case recentAvg of None \<Rightarrow> None
                      | Some recent \<Rightarrow>
                          Some (min (max ((recent - older) / older * 100 + 50) 0) 100))))"

text \<open>\<open>day.domains[domain] || 0\<close>\<close>

definition dayDomain :: "DayEntry \<Rightarrow> string \<Rightarrow> int" where
  "dayDomain day domain = (case map_of (day_domains day) domain of None \<Rightarrow> 0 | Some v \<Rightarrow> v)"

definition domainAverages :: "DayEntry list \<Rightarrow> rat list" where
  "domainAverages days =
     map (\<lambda>domain. of_int (sum_list (map (\<lambda>day. dayDomain day domain) days))
                     / of_nat (length days)) DOMAIN_keys"

text \<open>
  With no day every average is \<open>0 / 0\<close>, so the minimum, the maximum and the result are
  \<open>NaN\<close>. Otherwise \<open>Math.min\<close> and \<open>Math.max\<close> range over the four averages.
\<close>

definition calculateBalanceScore :: "DayEntry list \<Rightarrow> rat option" where
  "calculateBalanceScore days =
     (if days = [] then None
      else
        (let mn = Min (set (domainAverages days));
             mx = Max (set (domainAverages days))
         in if mx = 0 then Some 0 else Some (mn / mx * 100)))"

definition calculateIntensityScore :: "DayEntry list \<Rightarrow> rat" where
  "calculateIntensityScore days =
     (of_nat (length (filter (\<lambda>day. 200 \<le> day_totalXP day) days)) / 7) * 100"

definition calculateMomentumScoreForPeriod :: "DayEntry list \<Rightarrow> rat" where
  "calculateMomentumScoreForPeriod periodDays =
     (if length periodDays = 0 then 0
      else of_int (sum_list (map day_totalXP periodDays)) / of_nat (length periodDays))"

text \<open>
  \<open>days.slice(0, 3)\<close> is \<open>take 3 days\<close> and \<open>days.slice(3, 6)\<close> is \<open>take 3 (drop 3 days)\<close>.
  \<open>previousScore\<close> is computed and never read. Every comparison with a \<open>NaN\<close> score is false.
\<close>

definition getMomentumTrend :: "DayEntry list \<Rightarrow> int option \<Rightarrow> string" where
  "getMomentumTrend days currentScore =
     (if length days < 4 then ''starting''
      else
        (let recentScore = calculateMomentumScoreForPeriod (take 3 days);
             previousScore = calculateMomentumScoreForPeriod (take 3 (drop 3 days))
         in case currentScore of
              None \<Rightarrow> ''declining''
            | Some current \<Rightarrow>
                if recentScore + 10 < of_int current then ''accelerating''
                else if recentScore + 5 < of_int current then ''growing''
                else if recentScore - 5 \<le> of_int current then ''steady''
                else ''declining''))"

text \<open>\<open>score >= k\<close> and \<open>x < k\<close> on a number that may be \<open>NaN\<close>.\<close>

definition scoreAtLeast :: "int option \<Rightarrow> int \<Rightarrow> bool" where
  "scoreAtLeast sc k = (case sc of None \<Rightarrow> False | Some v \<Rightarrow> k \<le> v)"

definition numberBelow :: "rat option \<Rightarrow> rat \<Rightarrow> bool" where
  "numberBelow x k = (case x of None \<Rightarrow> False | Some v \<Rightarrow> v < k)"

definition generateMomentumRecommendation :: "int option \<Rightarrow> string \<Rightarrow> Factors \<Rightarrow> string" where
  "generateMomentumRecommendation sc tr fs =
     (if scoreAtLeast sc 90 then
        ''Elite momentum! Maintain this intensity and focus on breakthrough opportunities.''
      else if scoreAtLeast sc 75 then
        ''Strong momentum! Increase intensity slightly for breakthrough acceleration.''
      else if scoreAtLeast sc 60 then
        (if consistency fs < 80 then
           ''Good progress! Focus on daily consistency to build unstoppable momentum.''
         else if numberBelow (growth fs) 60 then
           ''Consistent but stagnant. Add 10% more intensity to each domain.''
         else
           ''Solid foundation! Now push one domain to mastery level each day.'')
      else if scoreAtLeast sc 40 then
        ''Building foundation. Focus on hitting daily minimums consistently.''
      else
        ''Initial phase. Start with one domain at a time and build consistency.'')"

text \<open>The weighted average, \<open>NaN\<close> as soon as one factor is.\<close>

definition weightedScore :: "Factors \<Rightarrow> rat option" where
  "weightedScore fs =
     (case (growth fs, balance fs) of
        (Some g, Some b) \<Rightarrow>
          Some (consistency fs * (4 / 10) + g * (3 / 10) + b * (2 / 10) + intensity fs * (1 / 10))
      | _ \<Rightarrow> None)"

text \<open>The body of \<open>calculateMomentumScore\<close> from the window \<open>last7Days\<close> on.\<close>

definition calculateMomentumScore_window :: "DayEntry list \<Rightarrow> Momentum" where
  "calculateMomentumScore_window last7Days =
     (if length last7Days = 0 then
        \<lparr> score = Some 0, trend = ''starting'',
          recommendation = ''Begin your journey with consistent daily effort.'',
          factors = None \<rparr>
      else
        (let fs = \<lparr> consistency = calculateConsistencyScore last7Days,
                    growth = calculateGrowthScore last7Days,
                    balance = calculateBalanceScore last7Days,
                    intensity = calculateIntensityScore last7Days \<rparr>;
             sc = map_option Math_round (weightedScore fs);
             tr = getMomentumTrend last7Days sc
         in \<lparr> score = sc, trend = tr,
              recommendation = generateMomentumRecommendation sc tr fs,
              factors = Some fs \<rparr>))"

definition calculateMomentumScore :: "zone \<Rightarrow> dayStore \<Rightarrow> int \<Rightarrow> Momentum" where
  "calculateMomentumScore LocalTZA s now =
     calculateMomentumScore_window (getLast7DaysData LocalTZA s now)"

text \<open>
  The trend as the specification words it: the average XP of \<open>days[0:3]\<close> compared with the
  average XP of \<open>days[3:6]\<close>.
\<close>

definition spec_trend :: "DayEntry list \<Rightarrow> string" where
  "spec_trend days =
     (if length days < 4 then ''starting''
      else
        (let current = calculateMomentumScoreForPeriod (take 3 days);
             recent = calculateMomentumScoreForPeriod (take 3 (drop 3 days))
         in if recent + 10 < current then ''accelerating''
            else if recent + 5 < current then ''growing''
            else if recent - 5 \<le> current then ''steady''
            else ''declining''))"

text \<open>Well-formed window entries: XP and per-domain values are not negative.\<close>

definition wellFormedDay :: "DayEntry \<Rightarrow> bool" where
  "wellFormedDay day =
     (0 \<le> day_totalXP day \<and> list_all (\<lambda>domain. 0 \<le> dayDomain day domain) DOMAIN_keys)"

text \<open>Well-formed stored records: domain totals and task XP are not negative.\<close>

definition wellFormedRecord :: "DailyRecord \<Rightarrow> bool" where
  "wellFormedRecord data =
     (list_all (\<lambda>(domain, a). 0 \<le> total a) (domains data)
      \<and> list_all (\<lambda>t. 0 \<le> task_xp t) (tasks data))"

section \<open>Streak\<close>

text \<open>
  The XP of a day as \<open>loadStreak\<close>, \<open>updateStreakCalculator\<close> and \<open>saveAlignment\<close> compute it:
  the sum over \<open>Object.keys(data.domains)\<close> of the totals plus the XP of the completed tasks.
\<close>

definition recomputedXP :: "DailyRecord \<Rightarrow> int" where
  "recomputedXP data =
     sum_list (map (\<lambda>(domain, a). total a) (domains data)) + completedTaskXP (tasks data)"

text \<open>
  \<open>let dayXP = data.totalXP || 0; if (!data.totalXP) { dayXP = 0; ... }\<close>: the cached total
  when it is there and not \<open>0\<close>, the recomputed sum otherwise.
\<close>

definition effectiveXP :: "DailyRecord \<Rightarrow> int" where
  "effectiveXP data =
     (case totalXP data of
        None \<Rightarrow> recomputedXP data
      | Some x \<Rightarrow> if x \<noteq> 0 then x else recomputedXP data)"

definition qualifies :: "DailyRecord \<Rightarrow> bool" where
  "qualifies data = (alignment data \<and> 160 \<le> effectiveXP data)"

text \<open>
  The loop \<open>for (let i = 1; i <= 30; i++)\<close> with its two \<open>break\<close>s. The record read at
  step \<open>i\<close> is that of the UTC date of \<open>now\<close> moved back \<open>i\<close> local days by \<open>setDate\<close>.
\<close>

function streakLoop :: "zone \<Rightarrow> dayStore \<Rightarrow> int \<Rightarrow> nat \<Rightarrow> nat \<Rightarrow> nat" where
  "streakLoop LocalTZA s now i currentStreak =
     (if i \<le> 30 then
        (let dateStr = dateString (daysBefore LocalTZA now i);
             data = safeLocalStorageGet_day s dateStr
         in if alignment data then
              (if 160 \<le> effectiveXP data
               then streakLoop LocalTZA s now (i + 1) (currentStreak + 1)
               else currentStreak)
            else currentStreak)
      else currentStreak)"
  by pat_completeness auto
termination
  by (relation "measure (\<lambda>(LocalTZA, s, now, i, currentStreak). 31 - i)") auto

declare streakLoop.simps [simp del]

record Streak =
  currentStreak :: nat
  streakAtRisk :: bool
  todayComplete :: bool

definition loadStreak :: "zone \<Rightarrow> dayStore \<Rightarrow> int \<Rightarrow> Streak" where
  "loadStreak LocalTZA s now =
     (let currentHour = getHours LocalTZA now;
          todayData = safeLocalStorageGet_day s (getToday now);
          complete = (alignment todayData \<and> 160 \<le> effectiveXP todayData)
      in \<lparr> currentStreak = streakLoop LocalTZA s now 1 0,
           streakAtRisk = (\<not> complete \<and> 20 \<le> currentHour),
           todayComplete = complete \<rparr>)"

text \<open>
  The streak as the specification words it: the length of the longest run of qualifying
  days that ends at the day before \<open>today\<close> and goes back day by day through at most 30
  days.
\<close>

definition spec_streak :: "dayStore \<Rightarrow> int \<Rightarrow> nat" where
  "spec_streak s today =
     length (takeWhile qualifies
       (map (\<lambda>i. safeLocalStorageGet_day s (today - int i)) [1..<31]))"

section \<open>Operations on today's record\<close>



definition knownCategory :: "string \<Rightarrow> bool" where
  "knownCategory c = (map_of TASK_CATEGORIES c \<noteq> None)"


text \<open>
  The per-domain totals that \<open>updateDomainProgress\<close> displays: the domain's activity total
  plus the XP of the completed tasks whose category belongs to the domain.
\<close>

definition domainTotals :: "DailyRecord \<Rightarrow> string \<Rightarrow> int" where
  "domainTotals data domain =
     domainTotal data domain
     + sum_list (map task_xp
         (filter (\<lambda>t. task_completed t \<and> map_of TASK_CATEGORIES (task_category t) = Some domain)
            (tasks data)))"

















definition knownTasks :: "DailyRecord \<Rightarrow> bool" where
  "knownTasks data = list_all (\<lambda>t. knownCategory (task_category t)) (tasks data)"

text \<open>
  The cached total of a record is in step: when \<open>totalXP\<close> is present the day is aligned and
  \<open>totalXP\<close> is the sum that the record now gives.
\<close>

definition cacheInStep :: "DailyRecord \<Rightarrow> bool" where
  "cacheInStep data =
     (case totalXP data of None \<Rightarrow> True | Some x \<Rightarrow> alignment data \<and> x = recomputedXP data)"

section \<open>The raw store: retention sweep and guarded write\<close>

definition startsWith :: "string \<Rightarrow> string \<Rightarrow> bool" where
  "startsWith key p = (take (length p) key = p)"

text \<open>
  \<open>new Date(dateStr)\<close> is the platform's date parser, a parameter here: \<open>dateOf dateStr\<close> is
  the time value, or \<open>None\<close> for an invalid date, for which \<open>date < cutoff\<close> is false. The cutoff
  is the current time moved back three months.

  \<open>clearOldData\<close> walks the store by index while it removes from it. A key that starts with
  \<open>'mastery_'\<close> has that prefix as its first occurrence, so \<open>key.replace('mastery_', '')\<close> drops
  the first eight characters.
\<close>

function clearLoop ::
  "(string \<Rightarrow> int option) \<Rightarrow> int \<Rightarrow> (string, 'v) storage \<Rightarrow> nat \<Rightarrow> (string, 'v) storage" where
  "clearLoop dateOf cutoff s i =
     (if i < length s then
        (let key = fst (s ! i)
         in if startsWith key ''mastery_'' \<and> length key = 16 then
              (let dateStr = drop (length ''mastery_'') key
               in case dateOf dateStr of
                    None \<Rightarrow> clearLoop dateOf cutoff s (i + 1)
                  | Some date \<Rightarrow>
                      if date < cutoff then clearLoop dateOf cutoff (AList.delete key s) (i + 1)
                      else clearLoop dateOf cutoff s (i + 1))
            else clearLoop dateOf cutoff s (i + 1))
      else s)"
  by pat_completeness auto
termination
proof (relation "measure (\<lambda>(dateOf, cutoff, s, i). length s - i)")
  show "wf (measure (\<lambda>(dateOf, cutoff, s, i). length s - i))"
    by simp
next
  fix dateOf :: "string \<Rightarrow> int option" and cutoff :: int and s :: "(string, 'v) storage"
    and i :: nat and key dateStr date
  assume "i < length s"
  moreover have "length (AList.delete key s) \<le> length s"
    by (simp add: AList.delete_eq)
  ultimately show "((dateOf, cutoff, AList.delete key s, i + 1), (dateOf, cutoff, s, i))
      \<in> measure (\<lambda>(dateOf, cutoff, s, i). length s - i)"
    by simp
qed auto

declare clearLoop.simps [simp del]

definition clearOldData ::
  "(string \<Rightarrow> int option) \<Rightarrow> int \<Rightarrow> (string, 'v) storage \<Rightarrow> (string, 'v) storage" where
  "clearOldData dateOf cutoff s = clearLoop dateOf cutoff s 0"

text \<open>A day key: \<open>'mastery_'\<close> followed by the ten characters of an ISO date.\<close>

definition dayKey :: "string \<Rightarrow> bool" where
  "dayKey key = (startsWith key ''mastery_'' \<and> length key = length ''mastery_'' + 10)"

text \<open>
  \<open>safeLocalStorageSet\<close> on the serialized value. \<open>fits\<close> says whether a store is within the
  quota: \<open>setItem\<close> raises \<open>QuotaExceededError\<close> when the store it would leave is not.
\<close>

definition safeLocalStorageSet ::
  "((string, 'v) storage \<Rightarrow> bool) \<Rightarrow> (string \<Rightarrow> int option) \<Rightarrow> int \<Rightarrow> (string, 'v) storage
     \<Rightarrow> string \<Rightarrow> 'v \<Rightarrow> (string, 'v) storage \<times> bool" where
  "safeLocalStorageSet fits dateOf cutoff s key v =
     (if fits (AList.update key v s) then (AList.update key v s, True)
      else
        (let swept = clearOldData dateOf cutoff s
         in if fits (AList.update key v swept) then (AList.update key v swept, True)
            else (swept, False)))"

section \<open>Backup\<close>

record Metadata =
  version :: string
  backupDate :: string
  totalEntries :: int
  system :: string

datatype backupValue = Item string | Meta Metadata

definition backedUp :: "string \<Rightarrow> bool" where
  "backedUp key =
     (startsWith key ''mastery_'' \<or> startsWith key ''industry_''
      \<or> key = ''current_intensity'' \<or> key = ''mastery_goal_path''
      \<or> key = ''mastery_runway_savings'' \<or> key = ''mastery_runway_expenses'')"

text \<open>The loop over \<open>localStorage.key(i)\<close> that fills the \<open>backup\<close> object.\<close>

fun backupLoop ::
  "(string, string) storage \<Rightarrow> (string, backupValue) storage \<Rightarrow> (string, backupValue) storage" where
  "backupLoop [] backup = backup"
| "backupLoop ((key, v) # rest) backup =
     backupLoop rest (if backedUp key then AList.update key (Item v) backup else backup)"

text \<open>
  \<open>backupEntireSystem\<close> returns the object it offers for download and the store it leaves.
  The metadata literal is evaluated before \<open>_metadata\<close> is added, so \<open>Object.keys(backup)\<close>
  counts the copied entries only.
\<close>

definition backupEntireSystem ::
  "string \<Rightarrow> (string, string) storage \<Rightarrow> (string, backupValue) storage \<times> (string, string) storage" where
  "backupEntireSystem nowIso s =
     (let backup = backupLoop s [];
          metadata = \<lparr> version = ''2.0'', backupDate = nowIso,
                       totalEntries = int (length backup) - 1,
                       system = ''Hollywood Mastery Destiny Protocol'' \<rparr>
      in (AList.update ''_metadata'' (Meta metadata) backup,
          AList.update ''last_backup_time'' nowIso s))"

section \<open>Reading with corruption recovery\<close>

text \<open>
  The values \<open>JSON.parse\<close> returns. A JavaScript array is an object too and can be given
  named properties; they are the second component of \<open>JArr\<close> (empty after parsing).
\<close>

datatype json =
    JNull
  | JBool bool
  | JNum rat
  | JStr string
  | JArr "json list" "(string \<times> json) list"
  | JObj "(string \<times> json) list"

fun typeof :: "json \<Rightarrow> string" where
  "typeof JNull = ''object''"
| "typeof (JBool b) = ''boolean''"
| "typeof (JNum n) = ''number''"
| "typeof (JStr t) = ''string''"
| "typeof (JArr xs ps) = ''object''"
| "typeof (JObj fs) = ''object''"

fun truthy :: "json \<Rightarrow> bool" where
  "truthy JNull = False"
| "truthy (JBool b) = b"
| "truthy (JNum n) = (n \<noteq> 0)"
| "truthy (JStr t) = (t \<noteq> [])"
| "truthy (JArr xs ps) = True"
| "truthy (JObj fs) = True"

text \<open>\<open>!parsed.name\<close> on the properties of an object: an absent property is \<open>undefined\<close>.\<close>

definition falsyProp :: "(string \<times> json) list \<Rightarrow> string \<Rightarrow> bool" where
  "falsyProp fs name = (case map_of fs name of None \<Rightarrow> True | Some v \<Rightarrow> \<not> truthy v)"

definition booleanProp :: "(string \<times> json) list \<Rightarrow> string \<Rightarrow> bool" where
  "booleanProp fs name = (case map_of fs name of None \<Rightarrow> False | Some v \<Rightarrow> typeof v = ''boolean'')"

text \<open>The three repairs, in the order of the source.\<close>

definition repair :: "(string \<times> json) list \<Rightarrow> (string \<times> json) list" where
  "repair fs =
     (let fs1 = (if falsyProp fs ''domains'' then AList.update ''domains'' (JObj []) fs else fs);
          fs2 = (if falsyProp fs1 ''tasks'' then AList.update ''tasks'' (JArr [] []) fs1 else fs1)
      in if \<not> booleanProp fs2 ''alignment'' then AList.update ''alignment'' (JBool False) fs2
         else fs2)"

text \<open>
  The body of the \<open>if\<close>: reading a property of \<open>null\<close> raises a TypeError (\<open>None\<close>); the other
  values of type \<open>'object'\<close> are repaired.
\<close>

fun validate :: "json \<Rightarrow> json option" where
  "validate JNull = None"
| "validate (JObj fs) = Some (JObj (repair fs))"
| "validate (JArr xs ps) = Some (JArr xs (repair ps))"
| "validate v = Some v"

text \<open>
  \<open>safeLocalStorageGet\<close>. \<open>JSON_parse\<close> is the platform's parser, \<open>None\<close> when it raises a
  SyntaxError. A missing item and the empty string are falsy; every exception ends in the
  \<open>catch\<close> that returns the fallback.
\<close>

definition safeLocalStorageGet ::
  "(string \<Rightarrow> json option) \<Rightarrow> (string, string) storage \<Rightarrow> string \<Rightarrow> json \<Rightarrow> json" where
  "safeLocalStorageGet JSON_parse s key fallback =
     (case map_of s key of
        None \<Rightarrow> fallback
      | Some item \<Rightarrow>
          if item = [] then fallback
          else
            (case JSON_parse item of
               None \<Rightarrow> fallback
             | Some parsed \<Rightarrow>
                 if startsWith key ''mastery_'' \<and> typeof parsed = ''object''
                 then (case validate parsed of None \<Rightarrow> fallback | Some v \<Rightarrow> v)
                 else parsed))"

section \<open>Example data\<close>

text \<open>A day of the window with the same value in each of the four domains.\<close>

definition evenDay :: "int \<Rightarrow> int \<Rightarrow> int \<Rightarrow> DayEntry" where
  "evenDay date xp perDomain =
     \<lparr> day_date = date, day_totalXP = xp,
       day_domains = map (\<lambda>domain. (domain, perDomain)) DOMAIN_keys,
       day_alignment = True \<rparr>"

text \<open>Seven days of 200 XP, 50 in each domain.\<close>

definition steadyWeek :: "DayEntry list" where
  "steadyWeek = map (\<lambda>i. evenDay (100 - int i) 200 50) [0..<7]"


text \<open>
  A week of task XP only: 100 XP on each of the three most recent days and 60 XP on each of
  the four days before, and the same week with 1000 XP on the fourth day.
\<close>

definition slowWeek :: "DayEntry list" where
  "slowWeek = map (\<lambda>i. evenDay (100 - int i) (if i < 3 then 100 else 60) 0) [0..<7]"

definition bigDay :: DayEntry where
  "bigDay = evenDay 97 1000 0"

definition burstWeek :: "DayEntry list" where
  "burstWeek = slowWeek[3 := bigDay]"

text \<open>The same week with 160 XP on the most recent day instead.\<close>

definition goodDay :: DayEntry where
  "goodDay = evenDay 100 160 0"

text \<open>A platform on UTC, and half past midnight of day 100 there.\<close>

definition utcZone :: zone where
  "utcZone t isUTC = 0"

definition day100 :: int where
  "day100 = 100 * msPerDay + 30 * 60000"

text \<open>
  America/New_York around the end of daylight saving time in 2026: four hours behind UTC
  until 2026-11-01T06:00Z, that is until 02:00 local time, and five hours behind from then
  on. Of a local time that occurs twice the earlier occurrence is meant.
\<close>

definition newYork :: zone where
  "newYork t isUTC =
     (if isUTC then (if t < 20758 * msPerDay + 6 * msPerHour then - 4 * msPerHour
                     else - 5 * msPerHour)
      else (if t < 20758 * msPerDay + 2 * msPerHour then - 4 * msPerHour
            else - 5 * msPerHour))"

text \<open>2026-11-04T00:30Z, which is 19:30 of 3 November in New York. Day 20761 is 2026-11-04.\<close>

definition afterFallBack :: int where
  "afterFallBack = 20761 * msPerDay + 30 * 60000"

text \<open>A stored day with the same total in each of the four domains and no task.\<close>

definition evenRecord :: "int \<Rightarrow> DailyRecord" where
  "evenRecord perDomain =
     \<lparr> tasks = [],
       domains = map (\<lambda>domain. (domain, \<lparr> total = perDomain, activities = [] \<rparr>)) DOMAIN_keys,
       alignment = True, alignmentReason = None, alignmentTime = None, totalXP = None \<rparr>"

text \<open>The store behind \<open>steadyWeek\<close>: days 94 to 100, 50 XP in each domain.\<close>

definition steadyStore :: dayStore where
  "steadyStore = map (\<lambda>i. (100 - int i, evenRecord 50)) [0..<7]"

text \<open>A day with 30 XP of creation activity and one completed acting task of 20 XP.\<close>

definition sceneTask :: Task where
  "sceneTask = \<lparr> task_id = 1, task_text = ''Scene study'', task_category = ''act'',
                 task_xp = 20, task_completed = True,
                 task_timestamp = ''2025-01-10T09:00:00.000Z'', task_updated = None \<rparr>"

definition taskDay :: DailyRecord where
  "taskDay = emptyRecord\<lparr> tasks := [sceneTask],
                          domains := [(''creation'', \<lparr> total = 30, activities = [] \<rparr>)] \<rparr>"

definition taskStore :: dayStore where
  "taskStore = [(100, taskDay)]"

text \<open>
  Aligned days with a cached total: days 91 to 99, each with 200 XP but day 94, the sixth
  day before day 100, with 159 XP.
\<close>

definition cachedDay :: "int \<Rightarrow> DailyRecord" where
  "cachedDay x = emptyRecord\<lparr> alignment := True, totalXP := Some x \<rparr>"

definition streakStore :: dayStore where
  "streakStore = map (\<lambda>i. (100 - int i, cachedDay (if i = 6 then 159 else 200))) [1..<10]"

text \<open>
  Aligned days of 200 XP on 2 and 3 November and on 30 and 31 October 2026, and nothing on
  1 November.
\<close>

definition fallBackStore :: dayStore where
  "fallBackStore =
     [(20760, cachedDay 200), (20759, cachedDay 200), (20757, cachedDay 200),
      (20756, cachedDay 200)]"




text \<open>A raw store with a metric log, its count, and one old day record.\<close>

definition historyStore :: "(string, string) storage" where
  "historyStore =
     [(''tier1-auditions_history_2025-01'', ''[1]''),
      (''mastery_tier1-auditions_2025-01'', ''1'')]"

definition oldStore :: "(string, string) storage" where
  "oldStore = [(''mastery_2020-01-01'', ''{}''), (''mastery_2020-01-02'', ''{}'')]"

section \<open>Properties of the breakthrough probability\<close>

lemma Math_round_le: "x \<le> of_int n \<Longrightarrow> Math_round x \<le> n"
  unfolding Math_round_def by linarith

lemma Math_round_mono: "x \<le> y \<Longrightarrow> Math_round x \<le> Math_round y"
  unfolding Math_round_def by (simp add: floor_mono)

lemma Math_round_nonneg: "0 \<le> x \<Longrightarrow> 0 \<le> Math_round x"
  unfolding Math_round_def by simp

text \<open>
  C9. The total is the rounded, 95-capped sum of the four capped contributions, each
  breakdown entry is its own contribution rounded by itself, the total never exceeds 95,
  and for streak 10, five tier-1 auditions, two callbacks and no role the breakdown is
  8, 3, 8, 0 with total 19.
\<close>

theorem calculateHollywoodProbability_total:
  "p_total (calculateHollywoodProbability s t c r) =
     Math_round (min (min (of_int s * (8 / 10)) 20 + min (of_int t * (6 / 10)) 30
                      + min (of_int c * 4) 30 + min (of_int r * 20) 20) 95)
   \<and> b_consistency (p_breakdown (calculateHollywoodProbability s t c r))
       = Math_round (min (of_int s * (8 / 10)) 20)
   \<and> b_opportunities (p_breakdown (calculateHollywoodProbability s t c r))
       = Math_round (min (of_int t * (6 / 10)) 30)
   \<and> b_callbacks (p_breakdown (calculateHollywoodProbability s t c r))
       = Math_round (min (of_int c * 4) 30)
   \<and> b_bookings (p_breakdown (calculateHollywoodProbability s t c r))
       = Math_round (min (of_int r * 20) 20)
   \<and> p_total (calculateHollywoodProbability s t c r) \<le> 95
   \<and> calculateHollywoodProbability 10 5 2 0 =
       \<lparr> p_total = 19,
         p_breakdown = \<lparr> b_consistency = 8, b_opportunities = 3,
                         b_callbacks = 8, b_bookings = 0 \<rparr> \<rparr>"
proof -
  have bound: "p_total (calculateHollywoodProbability s t c r) \<le> 95"
    unfolding calculateHollywoodProbability_def totalProbability_def
    by (simp add: Math_round_le)
  have scen: "calculateHollywoodProbability 10 5 2 0 =
       \<lparr> p_total = 19,
         p_breakdown = \<lparr> b_consistency = 8, b_opportunities = 3,
                         b_callbacks = 8, b_bookings = 0 \<rparr> \<rparr>"
    unfolding calculateHollywoodProbability_def totalProbability_def consistencyScore_def
      opportunitiesScore_def callbacksScore_def bookingsScore_def Math_round_def
    by (simp add: floor_eq_iff)
  show ?thesis
    using bound scen
    unfolding calculateHollywoodProbability_def totalProbability_def consistencyScore_def
      opportunitiesScore_def callbacksScore_def bookingsScore_def
    by simp
qed

section \<open>Properties of the dates\<close>

text \<open>
  When the offset in force at the local time \<open>i\<close> days back is the offset in force now,
  moving back \<open>i\<close> local days moves the UTC date back \<open>i\<close> days.
\<close>

lemma daysBefore_same_offset:
  assumes "LocalTZA (LocalTime LocalTZA now - int i * msPerDay) False = LocalTZA now True"
  shows "dateString (daysBefore LocalTZA now i) = getToday now - int i"
proof -
  have eq: "daysBefore LocalTZA now i = now + msPerDay * (- int i)"
    unfolding daysBefore_def UTC_def using assms by (simp add: LocalTime_def)
  have "(now + msPerDay * (- int i)) div msPerDay = - int i + now div msPerDay"
    by (rule div_mult_self2) (simp add: msPerDay_def)
  then show ?thesis
    unfolding dateString_def getToday_def eq by simp
qed

lemma utcZone_daysBefore: "dateString (daysBefore utcZone now i) = getToday now - int i"
  by (rule daysBefore_same_offset) (simp add: utcZone_def)

lemma day100_today: "getToday day100 = 100"
  unfolding getToday_def dateString_def day100_def msPerDay_def by simp

text \<open>
  In New York at 2026-11-04T00:30Z the dates read going back are 4, 3 and 2 November and
  then 31 October: 1 November (day 20758) is passed over.
\<close>

lemma newYork_dates:
  "map (\<lambda>i. dateString (daysBefore newYork afterFallBack i)) [0..<7]
     = [20761, 20760, 20759, 20757, 20756, 20755, 20754]"
  unfolding dateString_def daysBefore_def UTC_def LocalTime_def newYork_def afterFallBack_def
    msPerDay_def msPerHour_def
  by (simp add: upt_rec)

section \<open>Properties of the momentum score\<close>

lemma consistency_bounds:
  "0 \<le> calculateConsistencyScore days"
  "length days \<le> 7 \<Longrightarrow> calculateConsistencyScore days \<le> 100"
proof -
  show "0 \<le> calculateConsistencyScore days"
    unfolding calculateConsistencyScore_def by simp
  assume len: "length days \<le> 7"
  have "length (filter (\<lambda>day. 160 \<le> day_totalXP day) days) \<le> length days"
    by (rule length_filter_le)
  with len have "length (filter (\<lambda>day. 160 \<le> day_totalXP day) days) \<le> 7"
    by linarith
  then have "(of_nat (length (filter (\<lambda>day. 160 \<le> day_totalXP day) days)) :: rat) \<le> 7"
    by (metis of_nat_le_iff of_nat_numeral)
  then show "calculateConsistencyScore days \<le> 100"
    unfolding calculateConsistencyScore_def by simp
qed

lemma intensity_bounds:
  "0 \<le> calculateIntensityScore days"
  "length days \<le> 7 \<Longrightarrow> calculateIntensityScore days \<le> 100"
proof -
  show "0 \<le> calculateIntensityScore days"
    unfolding calculateIntensityScore_def by simp
  assume len: "length days \<le> 7"
  have "length (filter (\<lambda>day. 200 \<le> day_totalXP day) days) \<le> length days"
    by (rule length_filter_le)
  with len have "length (filter (\<lambda>day. 200 \<le> day_totalXP day) days) \<le> 7"
    by linarith
  then have "(of_nat (length (filter (\<lambda>day. 200 \<le> day_totalXP day) days)) :: rat) \<le> 7"
    by (metis of_nat_le_iff of_nat_numeral)
  then show "calculateIntensityScore days \<le> 100"
    unfolding calculateIntensityScore_def by simp
qed

lemma growth_bounds:
  assumes "calculateGrowthScore days = Some g"
  shows "0 \<le> g \<and> g \<le> 100"
  using assms unfolding calculateGrowthScore_def Let_def
  by (auto split: if_splits option.splits)

lemma growth_defined:
  assumes "length days < 2 \<or> 4 \<le> length days"
  shows "\<exists>g. calculateGrowthScore days = Some g"
proof (cases "length days < 2")
  case True
  then show ?thesis unfolding calculateGrowthScore_def by simp
next
  case False
  with assms have len: "4 \<le> length days" by simp
  then have "drop 3 days \<noteq> []" and "take 3 days \<noteq> []" by auto
  then show ?thesis
    unfolding calculateGrowthScore_def Let_def averageXP_def using False by simp
qed


lemma domainAverages_nonneg:
  assumes "list_all wellFormedDay days" and "a \<in> set (domainAverages days)"
  shows "0 \<le> a"
proof -
  from assms(2) obtain domain where dom: "domain \<in> set DOMAIN_keys"
    and a: "a = of_int (sum_list (map (\<lambda>day. dayDomain day domain) days)) / of_nat (length days)"
    unfolding domainAverages_def by auto
  have "\<And>day. day \<in> set days \<Longrightarrow> 0 \<le> dayDomain day domain"
    using assms(1) dom unfolding wellFormedDay_def list_all_iff by blast
  then have "0 \<le> sum_list (map (\<lambda>day. dayDomain day domain) days)"
    by (intro sum_list_nonneg) auto
  then show ?thesis unfolding a by simp
qed

lemma domainAverages_nonempty: "set (domainAverages days) \<noteq> {}"
  unfolding domainAverages_def DOMAIN_keys_def DOMAINS_def by simp

lemma balance_bounds:
  assumes "days \<noteq> []" and "list_all wellFormedDay days"
  shows "\<exists>b. calculateBalanceScore days = Some b \<and> 0 \<le> b \<and> b \<le> 100"
proof -
  let ?S = "set (domainAverages days)"
  have fin: "finite ?S" by simp
  have ne: "?S \<noteq> {}" by (rule domainAverages_nonempty)
  have mn_in: "Min ?S \<in> ?S" using fin ne by (rule Min_in)
  have mn0: "0 \<le> Min ?S" using domainAverages_nonneg[OF assms(2) mn_in] .
  have mn_mx: "Min ?S \<le> Max ?S" using fin ne by (simp add: Min_le)
  show ?thesis
  proof (cases "Max ?S = 0")
    case True
    then show ?thesis unfolding calculateBalanceScore_def Let_def using assms(1) by simp
  next
    case False
    with mn0 mn_mx have pos: "0 < Max ?S" by linarith
    define q where "q = Min ?S / Max ?S"
    have "q \<le> 1" and "0 \<le> q"
      unfolding q_def using pos mn_mx mn0 by simp_all
    then have "0 \<le> q * 100 \<and> q * 100 \<le> 100" by linarith
    moreover have "calculateBalanceScore days = Some (q * 100)"
      unfolding calculateBalanceScore_def Let_def q_def using assms(1) False by simp
    ultimately show ?thesis by blast
  qed
qed

lemma weighted_bounds:
  fixes c g b i :: rat
  assumes "0 \<le> c" "c \<le> 100" "0 \<le> g" "g \<le> 100" "0 \<le> b" "b \<le> 100" "0 \<le> i" "i \<le> 100"
  shows "0 \<le> c * (4 / 10) + g * (3 / 10) + b * (2 / 10) + i * (1 / 10)"
    and "c * (4 / 10) + g * (3 / 10) + b * (2 / 10) + i * (1 / 10) \<le> 100"
  using assms by simp_all

lemma score_window_nonempty:
  assumes "days \<noteq> []"
  shows "score (calculateMomentumScore_window days) =
    map_option Math_round (weightedScore
      \<lparr> consistency = calculateConsistencyScore days, growth = calculateGrowthScore days,
        balance = calculateBalanceScore days, intensity = calculateIntensityScore days \<rparr>)"
  using assms unfolding calculateMomentumScore_window_def Let_def by simp

lemma window_score_bounds:
  assumes "length w \<le> 7" and "length w \<noteq> 2" and "length w \<noteq> 3"
    and "list_all wellFormedDay w"
  shows "(\<exists>n. score (calculateMomentumScore_window w) = Some n \<and> 0 \<le> n \<and> n \<le> 100)
    \<and> calculateMomentumScore_window [] =
        \<lparr> score = Some 0, trend = ''starting'',
          recommendation = ''Begin your journey with consistent daily effort.'',
          factors = None \<rparr>"
proof -
  have empty: "calculateMomentumScore_window [] =
        \<lparr> score = Some 0, trend = ''starting'',
          recommendation = ''Begin your journey with consistent daily effort.'',
          factors = None \<rparr>"
    unfolding calculateMomentumScore_window_def by simp
  have "\<exists>n. score (calculateMomentumScore_window w) = Some n \<and> 0 \<le> n \<and> n \<le> 100"
  proof (cases "w = []")
    case True
    then show ?thesis using empty by simp
  next
    case False
    from assms(2,3) have "length w < 2 \<or> 4 \<le> length w" by linarith
    then obtain g where g: "calculateGrowthScore w = Some g"
      using growth_defined by blast
    obtain b where b: "calculateBalanceScore w = Some b" and b0: "0 \<le> b" and b1: "b \<le> 100"
      using balance_bounds[OF False assms(4)] by blast
    let ?x = "calculateConsistencyScore w * (4 / 10) + g * (3 / 10) + b * (2 / 10)
              + calculateIntensityScore w * (1 / 10)"
    have sc: "score (calculateMomentumScore_window w) = Some (Math_round ?x)"
      unfolding score_window_nonempty[OF False] weightedScore_def using g b by simp
    have lo: "0 \<le> ?x"
      using weighted_bounds(1)[OF consistency_bounds(1) consistency_bounds(2)[OF assms(1)]
          _ _ b0 b1 intensity_bounds(1) intensity_bounds(2)[OF assms(1)]]
        growth_bounds[OF g] by blast
    have hi: "?x \<le> 100"
      using weighted_bounds(2)[OF consistency_bounds(1) consistency_bounds(2)[OF assms(1)]
          _ _ b0 b1 intensity_bounds(1) intensity_bounds(2)[OF assms(1)]]
        growth_bounds[OF g] by blast
    have "0 \<le> Math_round ?x" using lo by (rule Math_round_nonneg)
    moreover have "Math_round ?x \<le> 100" using hi by (intro Math_round_le) simp
    ultimately show ?thesis using sc by blast
  qed
  then show ?thesis using empty by blast
qed

lemma domainTotal_nonneg:
  assumes "wellFormedRecord data"
  shows "0 \<le> domainTotal data domain"
proof (cases "map_of (domains data) domain")
  case None
  then show ?thesis unfolding domainTotal_def by simp
next
  case (Some a)
  then have "(domain, a) \<in> set (domains data)" by (rule map_of_SomeD)
  then have "0 \<le> total a"
    using assms unfolding wellFormedRecord_def list_all_iff by auto
  then show ?thesis unfolding domainTotal_def using Some by simp
qed

lemma completedTaskXP_nonneg:
  assumes "wellFormedRecord data"
  shows "0 \<le> completedTaskXP (tasks data)"
  unfolding completedTaskXP_def
  using assms unfolding wellFormedRecord_def list_all_iff
  by (intro sum_list_nonneg) auto

lemma dayEntry_wellFormed:
  assumes "wellFormedRecord (safeLocalStorageGet_day s date)"
  shows "wellFormedDay (dayEntry s date)"
proof -
  let ?data = "safeLocalStorageGet_day s date"
  have "0 \<le> sum_list (map (domainTotal ?data) DOMAIN_keys)"
    using domainTotal_nonneg[OF assms] by (intro sum_list_nonneg) auto
  then have "0 \<le> day_totalXP (dayEntry s date)"
    using completedTaskXP_nonneg[OF assms] by (simp add: dayEntry_def Let_def comp_def)
  moreover have "0 \<le> dayDomain (dayEntry s date) domain" if "domain \<in> set DOMAIN_keys"
    for domain
  proof -
    have "map_of (map (\<lambda>d. (d, domainTotal ?data d)) DOMAIN_keys) domain
        = Some (domainTotal ?data domain)"
      using that by (simp add: map_of_map_restrict)
    then show ?thesis
      using domainTotal_nonneg[OF assms, of domain]
      by (simp add: dayDomain_def dayEntry_def Let_def)
  qed
  ultimately show ?thesis unfolding wellFormedDay_def list_all_iff by simp
qed

lemma window_wellFormed:
  assumes "\<And>date. wellFormedRecord (safeLocalStorageGet_day s date)"
  shows "list_all wellFormedDay (getLast7DaysData LocalTZA s now)
       \<and> length (getLast7DaysData LocalTZA s now) = 7"
  unfolding getLast7DaysData_def list_all_iff
  using dayEntry_wellFormed[OF assms] by auto

text \<open>
  On the window that \<open>calculateMomentumScore\<close> builds from a store of well-formed records,
  whatever the time and the time zone, and on every window of 0, 1 or 4 to 7 well-formed
  entries, the score is an integer between 0 and 100; the empty window gives score 0, trend
  \<open>starting\<close> and the begin-your-journey text. No branch of the model raises.
\<close>

theorem momentum_score_bounds:
  assumes "length w \<le> 7" and "length w \<noteq> 2" and "length w \<noteq> 3"
    and "list_all wellFormedDay w"
  shows "(\<exists>n. score (calculateMomentumScore_window w) = Some n \<and> 0 \<le> n \<and> n \<le> 100)
    \<and> calculateMomentumScore_window [] =
        \<lparr> score = Some 0, trend = ''starting'',
          recommendation = ''Begin your journey with consistent daily effort.'',
          factors = None \<rparr>
    \<and> ((\<forall>date. wellFormedRecord (safeLocalStorageGet_day s date))
         \<longrightarrow> (\<exists>n. score (calculateMomentumScore LocalTZA s now) = Some n
                \<and> 0 \<le> n \<and> n \<le> 100))"
proof -
  have "\<exists>n. score (calculateMomentumScore LocalTZA s now) = Some n \<and> 0 \<le> n \<and> n \<le> 100"
    if wf: "\<forall>date. wellFormedRecord (safeLocalStorageGet_day s date)"
  proof -
    from wf have "list_all wellFormedDay (getLast7DaysData LocalTZA s now)"
      and "length (getLast7DaysData LocalTZA s now) = 7"
      using window_wellFormed[of s LocalTZA now] by simp_all
    then show ?thesis
      unfolding calculateMomentumScore_def
      using window_score_bounds[of "getLast7DaysData LocalTZA s now"] by simp
  qed
  then show ?thesis using window_score_bounds[OF assms] by blast
qed

lemma steadyWeek_wellFormed: "list_all wellFormedDay steadyWeek \<and> length steadyWeek = 7"
  unfolding steadyWeek_def evenDay_def wellFormedDay_def dayDomain_def DOMAIN_keys_def DOMAINS_def
  by (simp add: upt_rec)

lemma steadyStore_wellFormed: "wellFormedRecord (safeLocalStorageGet_day steadyStore date)"
proof (cases "map_of steadyStore date")
  case None
  then show ?thesis
    unfolding safeLocalStorageGet_day_def wellFormedRecord_def emptyRecord_def by simp
next
  case (Some data)
  then have "(date, data) \<in> set steadyStore" by (rule map_of_SomeD)
  then have "data = evenRecord 50" unfolding steadyStore_def by auto
  then show ?thesis
    unfolding safeLocalStorageGet_day_def wellFormedRecord_def evenRecord_def using Some
    by (simp add: list_all_iff)
qed

theorem momentum_score_bounds_witness:
  "length steadyWeek \<le> 7 \<and> list_all wellFormedDay steadyWeek
   \<and> (\<exists>n. score (calculateMomentumScore_window steadyWeek) = Some n \<and> 0 \<le> n \<and> n \<le> 100)
   \<and> (\<exists>n. score (calculateMomentumScore newYork steadyStore afterFallBack) = Some n
          \<and> 0 \<le> n \<and> n \<le> 100)"
  using momentum_score_bounds[of steadyWeek steadyStore newYork afterFallBack]
    steadyWeek_wellFormed steadyStore_wellFormed by simp


lemma length_filter_update:
  assumes "i < length xs"
  shows "length (filter P (xs[i := y])) + (if P (xs ! i) then 1 else 0)
       = length (filter P xs) + (if P y then 1 else 0)"
  using assms
proof (induction xs arbitrary: i)
  case Nil
  then show ?case by simp
next
  case (Cons x xs)
  show ?case
  proof (cases i)
    case 0
    then show ?thesis by simp
  next
    case (Suc j)
    with Cons.prems have "j < length xs" by simp
    from Cons.IH[OF this] show ?thesis using Suc by simp
  qed
qed

lemma consistency_replaced:
  assumes "i < length B" and "day_totalXP (B ! i) < 160" and "160 \<le> day_totalXP d"
  shows "calculateConsistencyScore (B[i := d]) = calculateConsistencyScore B + 100 / 7"
proof -
  have "length (filter (\<lambda>day. 160 \<le> day_totalXP day) (B[i := d]))
      = length (filter (\<lambda>day. 160 \<le> day_totalXP day) B) + 1"
    using length_filter_update[OF assms(1), of "\<lambda>day. 160 \<le> day_totalXP day" d] assms(2,3)
    by simp
  then show ?thesis
    unfolding calculateConsistencyScore_def by (simp add: field_simps)
qed

lemma intensity_replaced:
  assumes "i < length B" and "day_totalXP (B ! i) < 160"
  shows "calculateIntensityScore B \<le> calculateIntensityScore (B[i := d])"
proof -
  have "length (filter (\<lambda>day. 200 \<le> day_totalXP day) B)
      \<le> length (filter (\<lambda>day. 200 \<le> day_totalXP day) (B[i := d]))"
    using length_filter_update[OF assms(1), of "\<lambda>day. 200 \<le> day_totalXP day" d] assms(2)
    by (simp split: if_splits)
  then have "(of_nat (length (filter (\<lambda>day. 200 \<le> day_totalXP day) B)) :: rat)
      \<le> of_nat (length (filter (\<lambda>day. 200 \<le> day_totalXP day) (B[i := d])))"
    by (simp only: of_nat_le_iff)
  then show ?thesis
    unfolding calculateIntensityScore_def by (simp add: divide_right_mono)
qed

text \<open>
  C5, as amended. Let window \<open>A\<close> be the seven-day window \<open>B\<close> with one day below 160 XP
  replaced by a day of at least 160 XP. If the growth and balance factors of \<open>A\<close> are not
  below those of \<open>B\<close>, then the score of \<open>A\<close> is not below the score of \<open>B\<close>.
\<close>

theorem momentum_score_monotone:
  assumes "length B = 7" and "i < 7"
    and "day_totalXP (B ! i) < 160" and "160 \<le> day_totalXP d"
    and "A = B[i := d]"
    and "calculateGrowthScore B = Some gB" and "calculateGrowthScore A = Some gA"
    and "gB \<le> gA"
    and "calculateBalanceScore B = Some bB" and "calculateBalanceScore A = Some bA"
    and "bB \<le> bA"
  shows "\<exists>a b. score (calculateMomentumScore_window A) = Some a
            \<and> score (calculateMomentumScore_window B) = Some b \<and> b \<le> a"
proof -
  have i: "i < length B" using assms(1,2) by simp
  have neB: "B \<noteq> []" using assms(1) by auto
  have neA: "A \<noteq> []" using assms(1,5) by auto
  let ?xA = "calculateConsistencyScore A * (4 / 10) + gA * (3 / 10) + bA * (2 / 10)
             + calculateIntensityScore A * (1 / 10)"
  let ?xB = "calculateConsistencyScore B * (4 / 10) + gB * (3 / 10) + bB * (2 / 10)
             + calculateIntensityScore B * (1 / 10)"
  have scA: "score (calculateMomentumScore_window A) = Some (Math_round ?xA)"
    unfolding score_window_nonempty[OF neA] weightedScore_def using assms(7,10) by simp
  have scB: "score (calculateMomentumScore_window B) = Some (Math_round ?xB)"
    unfolding score_window_nonempty[OF neB] weightedScore_def using assms(6,9) by simp
  have c: "calculateConsistencyScore B \<le> calculateConsistencyScore A"
    unfolding assms(5) consistency_replaced[OF i assms(3,4)] by simp
  have n: "calculateIntensityScore B \<le> calculateIntensityScore A"
    unfolding assms(5) by (rule intensity_replaced[OF i assms(3)])
  have "?xB \<le> ?xA"
    using c n assms(8,11) by linarith
  then have "Math_round ?xB \<le> Math_round ?xA" by (rule Math_round_mono)
  then show ?thesis using scA scB by blast
qed

lemma slowWeek_unfold:
  "slowWeek = [evenDay 100 100 0, evenDay 99 100 0, evenDay 98 100 0, evenDay 97 60 0,
               evenDay 96 60 0, evenDay 95 60 0, evenDay 94 60 0]"
  unfolding slowWeek_def by (simp add: upt_rec)

lemma slowWeek_factors:
  "calculateGrowthScore slowWeek = Some 100 \<and> calculateBalanceScore slowWeek = Some 0
   \<and> calculateConsistencyScore slowWeek = 0 \<and> calculateIntensityScore slowWeek = 0"
  unfolding slowWeek_unfold calculateGrowthScore_def calculateBalanceScore_def
    calculateConsistencyScore_def calculateIntensityScore_def averageXP_def Let_def
    domainAverages_def evenDay_def dayDomain_def DOMAIN_keys_def DOMAINS_def
  by simp

lemma burstWeek_factors:
  "calculateGrowthScore burstWeek = Some 0 \<and> calculateBalanceScore burstWeek = Some 0
   \<and> calculateConsistencyScore burstWeek = 100 / 7 \<and> calculateIntensityScore burstWeek = 100 / 7"
  unfolding burstWeek_def bigDay_def slowWeek_unfold calculateGrowthScore_def
    calculateBalanceScore_def calculateConsistencyScore_def calculateIntensityScore_def
    averageXP_def Let_def domainAverages_def evenDay_def dayDomain_def DOMAIN_keys_def DOMAINS_def
  by simp

lemma goodWeek_factors:
  "calculateGrowthScore (slowWeek[0 := goodDay]) = Some 100
   \<and> calculateBalanceScore (slowWeek[0 := goodDay]) = Some 0"
  unfolding goodDay_def slowWeek_unfold calculateGrowthScore_def
    calculateBalanceScore_def averageXP_def Let_def domainAverages_def evenDay_def dayDomain_def
    DOMAIN_keys_def DOMAINS_def
  by simp

theorem momentum_score_monotone_witness:
  "length slowWeek = 7 \<and> day_totalXP (slowWeek ! 0) < 160 \<and> 160 \<le> day_totalXP goodDay
   \<and> (\<exists>a b. score (calculateMomentumScore_window (slowWeek[0 := goodDay])) = Some a
            \<and> score (calculateMomentumScore_window slowWeek) = Some b \<and> b \<le> a)"
proof -
  have len: "length slowWeek = 7" unfolding slowWeek_unfold by simp
  have lo: "day_totalXP (slowWeek ! 0) < 160" unfolding slowWeek_unfold evenDay_def by simp
  have hi: "160 \<le> day_totalXP goodDay" unfolding goodDay_def evenDay_def by simp
  have "\<exists>a b. score (calculateMomentumScore_window (slowWeek[0 := goodDay])) = Some a
            \<and> score (calculateMomentumScore_window slowWeek) = Some b \<and> b \<le> a"
    using momentum_score_monotone[OF len _ lo hi refl, of 100 100 0 0]
      slowWeek_factors goodWeek_factors by simp
  then show ?thesis using len lo hi by simp
qed

text \<open>
  C5 as stated fails: replacing the fourth day of \<open>slowWeek\<close> (60 XP) by a day of 1000 XP
  raises the older average, the growth factor falls from 100 to 0, and the score falls from
  30 to 7.
\<close>

theorem momentum_score_not_monotone:
  "length slowWeek = 7 \<and> burstWeek = slowWeek[3 := bigDay]
   \<and> day_totalXP (slowWeek ! 3) < 160 \<and> 160 \<le> day_totalXP bigDay
   \<and> list_all wellFormedDay slowWeek \<and> wellFormedDay bigDay
   \<and> score (calculateMomentumScore_window slowWeek) = Some 30
   \<and> score (calculateMomentumScore_window burstWeek) = Some 7"
proof -
  have neB: "slowWeek \<noteq> []" unfolding slowWeek_unfold by simp
  have neA: "burstWeek \<noteq> []" unfolding burstWeek_def slowWeek_unfold by simp
  have s30: "score (calculateMomentumScore_window slowWeek) = Some 30"
    unfolding score_window_nonempty[OF neB] weightedScore_def using slowWeek_factors
    by (simp add: Math_round_def floor_eq_iff)
  have s7: "score (calculateMomentumScore_window burstWeek) = Some 7"
    unfolding score_window_nonempty[OF neA] weightedScore_def using burstWeek_factors
    by (simp add: Math_round_def floor_eq_iff)
  have wf: "list_all wellFormedDay slowWeek \<and> wellFormedDay bigDay"
    unfolding slowWeek_unfold bigDay_def evenDay_def wellFormedDay_def dayDomain_def
      DOMAIN_keys_def DOMAINS_def by simp
  have rest: "length slowWeek = 7 \<and> day_totalXP (slowWeek ! 3) < 160 \<and> 160 \<le> day_totalXP bigDay"
    unfolding slowWeek_unfold bigDay_def evenDay_def by simp
  show ?thesis using s30 s7 wf rest by (simp add: burstWeek_def)
qed

section \<open>Properties of the seven-day window\<close>


lemma dayEntry_domain:
  assumes "domain \<in> set DOMAIN_keys"
  shows "dayDomain (dayEntry s date) domain = domainTotal (safeLocalStorageGet_day s date) domain"
proof -
  have "map_of (map (\<lambda>d. (d, domainTotal (safeLocalStorageGet_day s date) d)) DOMAIN_keys) domain
      = Some (domainTotal (safeLocalStorageGet_day s date) domain)"
    using assms by (simp add: map_of_map_restrict)
  then show ?thesis
    unfolding dayDomain_def dayEntry_def Let_def by simp
qed

lemma dayEntry_totalXP:
  "day_totalXP (dayEntry s date) =
     sum_list (map (domainTotal (safeLocalStorageGet_day s date)) DOMAIN_keys)
     + completedTaskXP (tasks (safeLocalStorageGet_day s date))"
  unfolding dayEntry_def Let_def by (simp add: comp_def)

lemma sum_over_keys:
  fixes f :: "'a \<Rightarrow> int"
  assumes "distinct (map fst xs)" and "set (map fst xs) \<subseteq> set K" and "distinct K"
  shows "sum_list (map (\<lambda>k. case map_of xs k of None \<Rightarrow> 0 | Some a \<Rightarrow> f a) K)
       = sum_list (map (\<lambda>(k, a). f a) xs)"
proof -
  let ?g = "\<lambda>k. case map_of xs k of None \<Rightarrow> 0 | Some a \<Rightarrow> f a"
  have "sum_list (map ?g K) = sum ?g (set K)"
    using assms(3) by (simp add: sum_list_distinct_conv_sum_set)
  also have "\<dots> = sum ?g (set (map fst xs))"
  proof (rule sum.mono_neutral_right)
    show "finite (set K)" by simp
    show "set (map fst xs) \<subseteq> set K" by (rule assms(2))
    show "\<forall>k \<in> set K - set (map fst xs). ?g k = 0"
    proof
      fix k assume "k \<in> set K - set (map fst xs)"
      then have "map_of xs k = None" by (simp add: map_of_eq_None_iff)
      then show "?g k = 0" by simp
    qed
  qed
  also have "\<dots> = sum_list (map ?g (map fst xs))"
    by (rule sum_list_distinct_conv_sum_set[OF assms(1), symmetric])
  also have "\<dots> = sum_list (map (\<lambda>(k, a). f a) xs)"
  proof -
    have "map ?g (map fst xs) = map (\<lambda>(k, a). f a) xs"
    proof (simp only: map_map, rule map_cong[OF refl])
      fix p assume p: "p \<in> set xs"
      have "map_of xs (fst p) = Some (snd p)"
        by (rule map_of_is_SomeI[OF assms(1)]) (simp add: p)
      then show "(?g \<circ> fst) p = (\<lambda>(k, a). f a) p"
        by (cases p) simp
    qed
    then show ?thesis by (rule arg_cong)
  qed
  finally show ?thesis .
qed

lemma window_total_is_recomputed:
  assumes "distinct (map fst (domains data))"
    and "set (map fst (domains data)) \<subseteq> set DOMAIN_keys"
  shows "sum_list (map (domainTotal data) DOMAIN_keys) + completedTaskXP (tasks data)
       = recomputedXP data"
proof -
  have "distinct DOMAIN_keys" unfolding DOMAIN_keys_def DOMAINS_def by simp
  from sum_over_keys[OF assms(1,2) this, of total]
  have "sum_list (map (domainTotal data) DOMAIN_keys)
      = sum_list (map (\<lambda>(domain, a). total a) (domains data))"
    unfolding domainTotal_def by simp
  then show ?thesis unfolding recomputedXP_def by simp
qed

text \<open>
  C3, as amended. \<open>getLast7DaysData\<close> returns seven entries, most recent first. While the
  offset of local time \<open>i\<close> days back is the offset in force now, the entry at position \<open>i\<close>
  is that of the calendar day \<open>i\<close> days before today; what the window covers across a change
  of offset is left open here. For each of the four fixed domains an entry holds the
  domain-activity total of its day alone. Its \<open>totalXP\<close> is the sum of these four totals
  plus the XP of the day's completed tasks; this is the day's effective XP when the record
  has no domain outside the four and its cached total, if any, agrees with the recomputed
  sum.
\<close>

theorem getLast7DaysData_entries:
  "length (getLast7DaysData LocalTZA s now) = 7
   \<and> (\<forall>i < 7.
        (LocalTZA (LocalTime LocalTZA now - int i * msPerDay) False = LocalTZA now True
             \<longrightarrow> day_date (getLast7DaysData LocalTZA s now ! i) = getToday now - int i)
        \<and> (\<forall>domain \<in> set DOMAIN_keys.
             dayDomain (getLast7DaysData LocalTZA s now ! i) domain
               = domainTotal
                   (safeLocalStorageGet_day s (day_date (getLast7DaysData LocalTZA s now ! i)))
                   domain)
        \<and> day_totalXP (getLast7DaysData LocalTZA s now ! i)
            = sum_list (map (domainTotal
                  (safeLocalStorageGet_day s (day_date (getLast7DaysData LocalTZA s now ! i))))
                DOMAIN_keys)
              + completedTaskXP (tasks
                  (safeLocalStorageGet_day s (day_date (getLast7DaysData LocalTZA s now ! i))))
        \<and> day_alignment (getLast7DaysData LocalTZA s now ! i)
            = alignment
                (safeLocalStorageGet_day s (day_date (getLast7DaysData LocalTZA s now ! i)))
        \<and> (distinct (map fst (domains
                (safeLocalStorageGet_day s (day_date (getLast7DaysData LocalTZA s now ! i)))))
             \<and> set (map fst (domains
                (safeLocalStorageGet_day s (day_date (getLast7DaysData LocalTZA s now ! i)))))
                 \<subseteq> set DOMAIN_keys
             \<and> effectiveXP
                 (safeLocalStorageGet_day s (day_date (getLast7DaysData LocalTZA s now ! i)))
                 = recomputedXP
                     (safeLocalStorageGet_day s (day_date (getLast7DaysData LocalTZA s now ! i)))
             \<longrightarrow> day_totalXP (getLast7DaysData LocalTZA s now ! i)
                   = effectiveXP
                       (safeLocalStorageGet_day s
                          (day_date (getLast7DaysData LocalTZA s now ! i)))))"
proof -
  have len: "length (getLast7DaysData LocalTZA s now) = 7"
    unfolding getLast7DaysData_def by simp
  have nth: "getLast7DaysData LocalTZA s now ! i
      = dayEntry s (dateString (daysBefore LocalTZA now i))" if "i < 7" for i
    unfolding getLast7DaysData_def using that by simp
  have date: "day_date (dayEntry s d) = d" for d
    unfolding dayEntry_def Let_def by simp
  have al: "day_alignment (dayEntry s d) = alignment (safeLocalStorageGet_day s d)" for d
    unfolding dayEntry_def Let_def by simp
  show ?thesis
    using len nth date al dayEntry_domain dayEntry_totalXP window_total_is_recomputed
      daysBefore_same_offset
    by (auto simp del: upt_Suc)
qed

lemma taskStore_today: "safeLocalStorageGet_day taskStore 100 = taskDay"
  unfolding taskStore_def safeLocalStorageGet_day_def by simp

lemma taskStore_window_today:
  "getLast7DaysData utcZone taskStore day100 ! 0 = dayEntry taskStore 100"
  unfolding getLast7DaysData_def using utcZone_daysBefore[of day100 0]
  by (simp add: upt_rec day100_today)

theorem getLast7DaysData_entries_witness:
  "length (getLast7DaysData utcZone taskStore day100) = 7
   \<and> day_date (getLast7DaysData utcZone taskStore day100 ! 0) = 100
   \<and> dayDomain (getLast7DaysData utcZone taskStore day100 ! 0) ''creation'' = 30
   \<and> day_totalXP (getLast7DaysData utcZone taskStore day100 ! 0) = 50
   \<and> effectiveXP taskDay = 50"
proof -
  have dom: "''creation'' \<in> set DOMAIN_keys"
    unfolding DOMAIN_keys_def DOMAINS_def by simp
  have eff: "effectiveXP taskDay = 50" and rec: "recomputedXP taskDay = 50"
    unfolding effectiveXP_def recomputedXP_def taskDay_def emptyRecord_def sceneTask_def
      completedTaskXP_def by simp_all
  have keys: "distinct (map fst (domains taskDay))
      \<and> set (map fst (domains taskDay)) \<subseteq> set DOMAIN_keys"
    unfolding taskDay_def DOMAIN_keys_def DOMAINS_def by simp
  have tot: "domainTotal taskDay ''creation'' = 30"
    unfolding domainTotal_def taskDay_def by simp
  have off: "utcZone (LocalTime utcZone day100 - int 0 * msPerDay) False = utcZone day100 True"
    by (simp add: utcZone_def)
  let ?e = "getLast7DaysData utcZone taskStore day100 ! 0"
  from getLast7DaysData_entries[of utcZone taskStore day100]
  have len: "length (getLast7DaysData utcZone taskStore day100) = 7"
    and all: "\<forall>i < 7.
        (utcZone (LocalTime utcZone day100 - int i * msPerDay) False = utcZone day100 True
             \<longrightarrow> day_date (getLast7DaysData utcZone taskStore day100 ! i)
                   = getToday day100 - int i)
        \<and> (\<forall>domain \<in> set DOMAIN_keys.
             dayDomain (getLast7DaysData utcZone taskStore day100 ! i) domain
               = domainTotal
                   (safeLocalStorageGet_day taskStore
                      (day_date (getLast7DaysData utcZone taskStore day100 ! i)))
                   domain)
        \<and> (distinct (map fst (domains
                (safeLocalStorageGet_day taskStore
                   (day_date (getLast7DaysData utcZone taskStore day100 ! i)))))
             \<and> set (map fst (domains
                (safeLocalStorageGet_day taskStore
                   (day_date (getLast7DaysData utcZone taskStore day100 ! i)))))
                 \<subseteq> set DOMAIN_keys
             \<and> effectiveXP
                 (safeLocalStorageGet_day taskStore
                    (day_date (getLast7DaysData utcZone taskStore day100 ! i)))
                 = recomputedXP
                     (safeLocalStorageGet_day taskStore
                        (day_date (getLast7DaysData utcZone taskStore day100 ! i)))
             \<longrightarrow> day_totalXP (getLast7DaysData utcZone taskStore day100 ! i)
                   = effectiveXP
                       (safeLocalStorageGet_day taskStore
                          (day_date (getLast7DaysData utcZone taskStore day100 ! i))))"
    by blast+
  from all[rule_format, of 0] off
  have d: "day_date ?e = 100" by (simp add: day100_today)
  from all[rule_format, of 0]
  have "dayDomain ?e ''creation'' = 30" and "day_totalXP ?e = 50"
    using dom eff rec keys tot d by (simp_all add: taskStore_today)
  then show ?thesis using len eff d by simp
qed

text \<open>
  C3 as stated fails: on a day with 30 XP of creation activity and a completed acting task
  of 20 XP the entry's creation value is 30, while the activity total plus the task XP of
  the domain, as \<open>updateDomainProgress\<close> shows it for today, is 50.
\<close>

theorem getLast7DaysData_no_task_attribution:
  "map_of TASK_CATEGORIES (task_category sceneTask) = Some ''creation''
   \<and> getToday day100 = 100
   \<and> dayDomain (getLast7DaysData utcZone taskStore day100 ! 0) ''creation'' = 30
   \<and> domainTotals (safeLocalStorageGet_day taskStore 100) ''creation'' = 50"
proof -
  have "getLast7DaysData utcZone taskStore day100 ! 0 = dayEntry taskStore 100"
    by (rule taskStore_window_today)
  moreover have "dayDomain (dayEntry taskStore 100) ''creation'' = 30"
    unfolding dayDomain_def dayEntry_def Let_def taskStore_today domainTotal_def taskDay_def
      DOMAIN_keys_def DOMAINS_def by simp
  moreover have "domainTotals taskDay ''creation'' = 50"
    unfolding domainTotals_def domainTotal_def taskDay_def sceneTask_def TASK_CATEGORIES_def
      emptyRecord_def by simp
  moreover have "map_of TASK_CATEGORIES (task_category sceneTask) = Some ''creation''"
    unfolding sceneTask_def TASK_CATEGORIES_def by simp
  ultimately show ?thesis by (simp add: taskStore_today day100_today)
qed

lemma steadyStore_window: "getLast7DaysData utcZone steadyStore day100 = steadyWeek"
proof -
  have get: "safeLocalStorageGet_day steadyStore (100 - int i) = evenRecord 50" if "i < 7" for i
  proof -
    from that have "i \<in> {0, 1, 2, 3, 4, 5, 6}" by auto
    then show ?thesis
      unfolding safeLocalStorageGet_day_def steadyStore_def by (auto simp add: upt_rec)
  qed
  have "dayEntry steadyStore (100 - int i) = evenDay (100 - int i) 200 50" if "i < 7" for i
    unfolding dayEntry_def Let_def get[OF that] evenDay_def evenRecord_def domainTotal_def
      completedTaskXP_def DOMAIN_keys_def DOMAINS_def
    by simp
  then show ?thesis
    unfolding getLast7DaysData_def steadyWeek_def
    by (simp add: utcZone_daysBefore day100_today)
qed

text \<open>
  Across the end of daylight saving time the window does not cover the seven calendar days:
  in New York at 2026-11-04T00:30Z it has no entry for 1 November.
\<close>

lemma getLast7DaysData_skips_day:
  "map day_date (getLast7DaysData newYork s afterFallBack)
     = [20761, 20760, 20759, 20757, 20756, 20755, 20754]"
proof -
  have "map day_date (getLast7DaysData newYork s afterFallBack)
      = map (\<lambda>i. dateString (daysBefore newYork afterFallBack i)) [0..<7]"
    unfolding getLast7DaysData_def dayEntry_def Let_def by (simp add: comp_def)
  then show ?thesis by (simp only: newYork_dates)
qed

section \<open>The trend\<close>

lemma steadyWeek_unfold:
  "steadyWeek = [evenDay 100 200 50, evenDay 99 200 50, evenDay 98 200 50, evenDay 97 200 50,
                 evenDay 96 200 50, evenDay 95 200 50, evenDay 94 200 50]"
  unfolding steadyWeek_def by (simp add: upt_rec)

lemma steadyWeek_factors:
  "calculateGrowthScore steadyWeek = Some 50 \<and> calculateBalanceScore steadyWeek = Some 100
   \<and> calculateConsistencyScore steadyWeek = 100 \<and> calculateIntensityScore steadyWeek = 100"
  unfolding steadyWeek_unfold calculateGrowthScore_def calculateBalanceScore_def
    calculateConsistencyScore_def calculateIntensityScore_def averageXP_def Let_def
    domainAverages_def evenDay_def dayDomain_def DOMAIN_keys_def DOMAINS_def
  by simp

text \<open>
  C4. On a store with seven days of 200 XP each the two three-day blocks have the same
  average, which the specification calls \<open>steady\<close>; the code compares the composite score
  85 with the recent average 200 and answers \<open>declining\<close>.
\<close>

theorem trend_ignores_previous_block:
  "getLast7DaysData utcZone steadyStore day100 = steadyWeek
   \<and> trend (calculateMomentumScore utcZone steadyStore day100) = ''declining''
   \<and> score (calculateMomentumScore_window steadyWeek) = Some 85
   \<and> calculateMomentumScoreForPeriod (take 3 steadyWeek) = 200
   \<and> calculateMomentumScoreForPeriod (take 3 (drop 3 steadyWeek)) = 200
   \<and> trend (calculateMomentumScore_window steadyWeek) = ''declining''
   \<and> spec_trend steadyWeek = ''steady''"
proof -
  have ne: "steadyWeek \<noteq> []" unfolding steadyWeek_unfold by simp
  have sc: "score (calculateMomentumScore_window steadyWeek) = Some 85"
    unfolding score_window_nonempty[OF ne] weightedScore_def using steadyWeek_factors
    by (simp add: Math_round_def floor_eq_iff)
  have r: "calculateMomentumScoreForPeriod (take 3 steadyWeek) = 200"
    unfolding steadyWeek_unfold calculateMomentumScoreForPeriod_def evenDay_def by simp
  have p: "calculateMomentumScoreForPeriod (take 3 (drop 3 steadyWeek)) = 200"
    unfolding steadyWeek_unfold calculateMomentumScoreForPeriod_def evenDay_def by simp
  have len: "\<not> length steadyWeek < 4" unfolding steadyWeek_unfold by simp
  have tr: "trend (calculateMomentumScore_window steadyWeek)
      = getMomentumTrend steadyWeek (score (calculateMomentumScore_window steadyWeek))"
    using ne unfolding calculateMomentumScore_window_def Let_def by simp
  have "trend (calculateMomentumScore_window steadyWeek) = ''declining''"
    unfolding tr sc getMomentumTrend_def Let_def using len r by simp
  moreover have "spec_trend steadyWeek = ''steady''"
    unfolding spec_trend_def Let_def using len r p by simp
  ultimately show ?thesis
    using sc r p steadyStore_window by (simp add: calculateMomentumScore_def)
qed

lemma getMomentumTrend_recent_only:
  assumes "4 \<le> length days" and "take 3 days' = take 3 days" and "4 \<le> length days'"
  shows "getMomentumTrend days' current = getMomentumTrend days current"
  using assms unfolding getMomentumTrend_def Let_def by (cases current) simp_all

section \<open>Properties of the streak\<close>

lemma streakLoop_takeWhile:
  "streakLoop LocalTZA s now i c =
     c + length (takeWhile qualifies
           (map (\<lambda>j. safeLocalStorageGet_day s (dateString (daysBefore LocalTZA now j)))
              [i..<31]))"
proof (induction LocalTZA s now i c rule: streakLoop.induct)
  case (1 LocalTZA s now i c)
  let ?data = "safeLocalStorageGet_day s (dateString (daysBefore LocalTZA now i))"
  show ?case
  proof (cases "i \<le> 30")
    case False
    then show ?thesis by (subst streakLoop.simps) simp
  next
    case True
    then have upt: "[i..<31] = i # [i + 1..<31]"
      by (simp add: upt_conv_Cons)
    show ?thesis
    proof (cases "qualifies ?data")
      case False
      then show ?thesis
        using True by (subst streakLoop.simps) (auto simp add: upt qualifies_def Let_def)
    next
      case q: True
      then have al: "alignment ?data" and xp: "160 \<le> effectiveXP ?data"
        unfolding qualifies_def by simp_all
      have "streakLoop LocalTZA s now i c = streakLoop LocalTZA s now (i + 1) (c + 1)"
        using True al xp by (subst streakLoop.simps) (simp add: Let_def)
      also have "\<dots> = c + 1 + length (takeWhile qualifies
           (map (\<lambda>j. safeLocalStorageGet_day s (dateString (daysBefore LocalTZA now j)))
              [i + 1..<31]))"
        using "1.IH"[OF True refl refl al xp] .
      finally show ?thesis using q by (simp add: upt)
    qed
  qed
qed

text \<open>
  The streak is the length of the longest run of qualifying records among those that the
  walk reads, in the order in which it reads them.
\<close>

lemma loadStreak_run:
  "currentStreak (loadStreak LocalTZA s now) =
     length (takeWhile qualifies
       (map (\<lambda>i. safeLocalStorageGet_day s (dateString (daysBefore LocalTZA now i)))
          [1..<31]))"
  unfolding loadStreak_def Let_def by (simp add: streakLoop_takeWhile)

text \<open>
  While the offset of local time at each of the 30 steps back is the offset in force now,
  the walk reads the 30 days before today in turn and the streak is the run that the
  specification describes.
\<close>

lemma loadStreak_same_offset:
  assumes "\<And>i. 1 \<le> i \<Longrightarrow> i \<le> 30
    \<Longrightarrow> LocalTZA (LocalTime LocalTZA now - int i * msPerDay) False = LocalTZA now True"
  shows "currentStreak (loadStreak LocalTZA s now) = spec_streak s (getToday now)"
proof -
  have "map (\<lambda>i. safeLocalStorageGet_day s (dateString (daysBefore LocalTZA now i))) [1..<31]
      = map (\<lambda>i. safeLocalStorageGet_day s (getToday now - int i)) [1..<31]"
  proof (rule map_cong[OF refl])
    fix i assume "i \<in> set [1..<31]"
    then have "1 \<le> i" and "i \<le> 30" by simp_all
    then show "safeLocalStorageGet_day s (dateString (daysBefore LocalTZA now i))
        = safeLocalStorageGet_day s (getToday now - int i)"
      using daysBefore_same_offset[OF assms] by simp
  qed
  then show ?thesis
    unfolding loadStreak_run spec_streak_def by (rule arg_cong)
qed

lemma run_of_five:
  assumes "5 < length xs" and "\<And>j. j < 5 \<Longrightarrow> P (xs ! j)" and "\<not> P (xs ! 5)"
  shows "length (takeWhile P xs) = 5"
proof -
  have "takeWhile P xs = take 5 xs"
    using assms by (intro takeWhile_eq_take_P_nth) auto
  then show ?thesis using assms(1) by simp
qed

text \<open>
  Five qualifying days before today and an aligned sixth day of 159 XP make a run of five.
\<close>

lemma spec_streak_five:
  assumes "\<And>i. 1 \<le> i \<Longrightarrow> i \<le> 5 \<Longrightarrow> qualifies (safeLocalStorageGet_day s (today - int i))"
    and "effectiveXP (safeLocalStorageGet_day s (today - 6)) = 159"
  shows "spec_streak s today = 5"
  unfolding spec_streak_def
proof (rule run_of_five)
  let ?days = "map (\<lambda>i. safeLocalStorageGet_day s (today - int i)) [1..<31]"
  show "5 < length ?days" by simp
  show "qualifies (?days ! j)" if "j < 5" for j
  proof -
    have "?days ! j = safeLocalStorageGet_day s (today - int (1 + j))"
      using that by (simp only: nth_map_upt)
    moreover have "1 \<le> 1 + j" and "1 + j \<le> 5" using that by simp_all
    ultimately show ?thesis using assms(1)[of "1 + j"] by simp
  qed
  have "?days ! 5 = safeLocalStorageGet_day s (today - 6)"
    by (simp only: nth_map_upt) simp
  then show "\<not> qualifies (?days ! 5)"
    using assms(2) unfolding qualifies_def by simp
qed

lemma streakStore_days:
  "safeLocalStorageGet_day streakStore (100 - int i) =
     (if i \<in> {1..9} then cachedDay (if i = 6 then 159 else 200) else emptyRecord)"
proof (cases "i \<in> {1..9}")
  case True
  then have "i \<in> {1, 2, 3, 4, 5, 6, 7, 8, 9}" by auto
  then show ?thesis
    unfolding safeLocalStorageGet_day_def streakStore_def by (auto simp add: upt_rec)
next
  case False
  then have "map_of streakStore (100 - int i) = None"
    unfolding streakStore_def by (auto simp add: map_of_eq_None_iff upt_rec)
  then show ?thesis
    using False unfolding safeLocalStorageGet_day_def by auto
qed

text \<open>
  On a platform on UTC the scenario of five qualifying days before a day of 159 XP, with
  qualifying days before that, gives a streak of 5.
\<close>

lemma loadStreak_five_days:
  "currentStreak (loadStreak utcZone streakStore day100) = 5"
proof -
  have "currentStreak (loadStreak utcZone streakStore day100)
      = spec_streak streakStore (getToday day100)"
    by (rule loadStreak_same_offset) (simp add: utcZone_def)
  moreover have "spec_streak streakStore 100 = 5"
  proof (rule spec_streak_five)
    show "qualifies (safeLocalStorageGet_day streakStore (100 - int i))"
      if "1 \<le> i" and "i \<le> 5" for i
      using that by (simp add: streakStore_days qualifies_def effectiveXP_def cachedDay_def
          emptyRecord_def)
    show "effectiveXP (safeLocalStorageGet_day streakStore (100 - 6)) = 159"
      using streakStore_days[of 6]
      by (simp add: effectiveXP_def cachedDay_def emptyRecord_def)
  qed
  ultimately show ?thesis by (simp add: day100_today)
qed

lemma fallBackStore_days:
  "qualifies (safeLocalStorageGet_day fallBackStore 20760)
   \<and> qualifies (safeLocalStorageGet_day fallBackStore 20759)
   \<and> \<not> qualifies (safeLocalStorageGet_day fallBackStore 20758)
   \<and> qualifies (safeLocalStorageGet_day fallBackStore 20757)
   \<and> qualifies (safeLocalStorageGet_day fallBackStore 20756)
   \<and> \<not> qualifies (safeLocalStorageGet_day fallBackStore 20755)"
  unfolding qualifies_def safeLocalStorageGet_day_def fallBackStore_def effectiveXP_def
    cachedDay_def emptyRecord_def
  by simp

lemma newYork_walk:
  "map (\<lambda>i. dateString (daysBefore newYork afterFallBack i)) [1..<31]
     = [20760, 20759, 20757, 20756, 20755]
       @ map (\<lambda>i. dateString (daysBefore newYork afterFallBack i)) [6..<31]"
proof -
  have "[1..<31] = [1, 2, 3, 4, 5] @ [6..<31]"
    by (simp add: upt_rec)
  moreover have "map (\<lambda>i. dateString (daysBefore newYork afterFallBack i)) [1, 2, 3, 4, 5]
      = [20760, 20759, 20757, 20756, 20755]"
    unfolding dateString_def daysBefore_def UTC_def LocalTime_def newYork_def afterFallBack_def
      msPerDay_def msPerHour_def
    by simp
  ultimately show ?thesis by (simp only: map_append)
qed

text \<open>
  C8. In New York at 2026-11-04T00:30Z, with aligned days of 200 XP on 3 and 2 November
  and on 31 and 30 October and no record for 1 November, the run of qualifying days that
  ends at yesterday has length 2. The walk of \<open>loadStreak\<close> moves back by local days and
  reads the UTC date: it reads 3 and 2 November, then 31 and 30 October, never 1 November,
  and counts 4.
\<close>

theorem loadStreak_skips_day:
  "getToday afterFallBack = 20761
   \<and> map (\<lambda>i. dateString (daysBefore newYork afterFallBack i)) [1, 2, 3, 4, 5]
       = [20760, 20759, 20757, 20756, 20755]
   \<and> currentStreak (loadStreak newYork fallBackStore afterFallBack) = 4
   \<and> spec_streak fallBackStore (getToday afterFallBack) = 2"
proof -
  have today: "getToday afterFallBack = 20761"
    unfolding getToday_def dateString_def afterFallBack_def msPerDay_def by simp
  have dates: "map (\<lambda>i. dateString (daysBefore newYork afterFallBack i)) [1, 2, 3, 4, 5]
      = [20760, 20759, 20757, 20756, 20755]"
    unfolding dateString_def daysBefore_def UTC_def LocalTime_def newYork_def afterFallBack_def
      msPerDay_def msPerHour_def
    by simp
  have "map (\<lambda>i. safeLocalStorageGet_day fallBackStore
                (dateString (daysBefore newYork afterFallBack i))) [1..<31]
      = map (safeLocalStorageGet_day fallBackStore)
          (map (\<lambda>i. dateString (daysBefore newYork afterFallBack i)) [1..<31])"
    by (simp only: map_map comp_def)
  then have code: "currentStreak (loadStreak newYork fallBackStore afterFallBack) = 4"
    unfolding loadStreak_run newYork_walk using fallBackStore_days by simp
  have "[1..<31] = [1, 2, 3] @ [4..<31]"
    by (simp add: upt_rec)
  then have "map (\<lambda>i. safeLocalStorageGet_day fallBackStore (20761 - int i)) [1..<31]
      = [safeLocalStorageGet_day fallBackStore 20760, safeLocalStorageGet_day fallBackStore 20759,
         safeLocalStorageGet_day fallBackStore 20758]
        @ map (\<lambda>i. safeLocalStorageGet_day fallBackStore (20761 - int i)) [4..<31]"
    by (simp only: map_append) simp
  then have spec: "spec_streak fallBackStore 20761 = 2"
    unfolding spec_streak_def using fallBackStore_days by simp
  show ?thesis using today dates code spec by simp
qed

section \<open>The cached total\<close>

lemma recomputedXP_cache [simp]:
  "recomputedXP (data\<lparr>totalXP := x\<rparr>) = recomputedXP data"
  unfolding recomputedXP_def by simp

lemma knownTasks_cache [simp]:
  "knownTasks (data\<lparr>totalXP := x\<rparr>) = knownTasks data"
  unfolding knownTasks_def by simp








text \<open>
  On a record whose cached total is in step, the XP that the streak reads is the cached
  total whenever there is one.
\<close>

lemma effectiveXP_in_step:
  assumes "cacheInStep data"
  shows "effectiveXP data = (case totalXP data of None \<Rightarrow> recomputedXP data | Some x \<Rightarrow> x)"
  using assms unfolding cacheInStep_def effectiveXP_def by (cases "totalXP data") auto






section \<open>Properties of the retention sweep\<close>

lemma delete_keeps_other:
  assumes "(k, v) \<in> set s" and "k \<noteq> key"
  shows "(k, v) \<in> set (AList.delete key s)"
  using assms by (auto simp add: AList.delete_eq)

lemma clearLoop_keeps:
  assumes "(k, v) \<in> set s" and "length k \<noteq> 16"
  shows "(k, v) \<in> set (clearLoop dateOf cutoff s i)"
  using assms
proof (induction dateOf cutoff s i rule: clearLoop.induct)
  case (1 dateOf cutoff s i)
  show ?case
  proof (cases "i < length s")
    case False
    then show ?thesis using "1.prems" by (subst clearLoop.simps) simp
  next
    case True
    let ?key = "fst (s ! i)"
    show ?thesis
    proof (cases "startsWith ?key ''mastery_'' \<and> length ?key = 16")
      case False
      then have "clearLoop dateOf cutoff s i = clearLoop dateOf cutoff s (i + 1)"
        using True by (subst clearLoop.simps) (auto simp add: Let_def)
      then show ?thesis using "1.IH"(4)[OF True refl False "1.prems"] by simp
    next
      case sel: True
      show ?thesis
      proof (cases "dateOf (drop (length ''mastery_'') ?key)")
        case None
        then have "clearLoop dateOf cutoff s i = clearLoop dateOf cutoff s (i + 1)"
          using True sel by (subst clearLoop.simps) (simp add: Let_def)
        then show ?thesis using "1.IH"(1)[OF True refl sel refl None "1.prems"] by simp
      next
        case (Some date)
        show ?thesis
        proof (cases "date < cutoff")
          case old: True
          have eq: "clearLoop dateOf cutoff s i
              = clearLoop dateOf cutoff (AList.delete ?key s) (i + 1)"
            using True sel Some old by (subst clearLoop.simps) (simp add: Let_def)
          have "k \<noteq> ?key" using sel "1.prems"(2) by auto
          then have "(k, v) \<in> set (AList.delete ?key s)"
            using "1.prems"(1) by (rule delete_keeps_other[rotated])
          from "1.IH"(2)[OF True refl sel refl Some old this "1.prems"(2)]
          show ?thesis using eq by simp
        next
          case False
          then have "clearLoop dateOf cutoff s i = clearLoop dateOf cutoff s (i + 1)"
            using True sel Some by (subst clearLoop.simps) (simp add: Let_def)
          then show ?thesis
            using "1.IH"(3)[OF True refl sel refl Some False "1.prems"] by simp
        qed
      qed
    qed
  qed
qed

lemma update_keeps_other:
  assumes "(k, v) \<in> set s" and "k \<noteq> key"
  shows "(k, v) \<in> set (AList.update key w s)"
  using assms by (induction s) auto

text \<open>
  The guarded write keeps every day-keyed record but the one it writes, also when it had to
  sweep: the sweep frees no day.
\<close>

lemma safeLocalStorageSet_keeps_day_keys:
  assumes "length k \<noteq> 16" and "(k, v) \<in> set s" and "k \<noteq> key"
  shows "(k, v) \<in> set (fst (safeLocalStorageSet fits dateOf cutoff s key w))"
proof -
  have swept: "(k, v) \<in> set (clearOldData dateOf cutoff s)"
    unfolding clearOldData_def using assms(2,1) by (rule clearLoop_keeps)
  show ?thesis
    unfolding safeLocalStorageSet_def Let_def
    using swept assms(2,3) by (simp add: update_keeps_other)
qed

lemma dayKey_length: "dayKey key \<Longrightarrow> length key = 18"
  unfolding dayKey_def by simp

text \<open>
  Among keys of 16 characters the sweep removes by index while it walks by index, so the key
  that follows a removed one is not looked at: here every date is before the cutoff.
\<close>

lemma clearOldData_skips_after_removal:
  "clearOldData (\<lambda>d. Some 0) 1
     [(''mastery_2020-1-1'', ''a''), (''mastery_2020-1-2'', ''b''), (''mastery_2020-01-03'', ''c'')]
   = [(''mastery_2020-1-2'', ''b''), (''mastery_2020-01-03'', ''c'')]"
  by code_simp

text \<open>
  C1. The sweep only looks at keys of 16 characters, and a day key has 18: whatever the
  dates and the cutoff, every day-keyed record that is in the store before \<open>clearOldData\<close>
  is in the store after it.
\<close>

theorem clearOldData_keeps_day_keys:
  assumes "dayKey key" and "(key, v) \<in> set s"
  shows "(key, v) \<in> set (clearOldData dateOf cutoff s)"
  unfolding clearOldData_def
  using assms(2) dayKey_length[OF assms(1)] by (intro clearLoop_keeps) simp_all

theorem clearOldData_keeps_day_keys_witness:
  "dayKey ''mastery_2020-01-01''
   \<and> (''mastery_2020-01-01'', ''{}'') \<in> set oldStore
   \<and> (''mastery_2020-01-01'', ''{}'') \<in> set (clearOldData (\<lambda>d. Some 0) 1 oldStore)"
proof -
  have k: "dayKey ''mastery_2020-01-01''"
    unfolding dayKey_def startsWith_def by simp
  have m: "(''mastery_2020-01-01'', ''{}'') \<in> set oldStore"
    unfolding oldStore_def by simp
  from clearOldData_keeps_day_keys[OF k m, of "\<lambda>d. Some 0" 1] k m
  show ?thesis by simp
qed

section \<open>Properties of the backup\<close>

lemma backupLoop_keys:
  "fst ` set (backupLoop s backup) = fst ` set backup \<union> {key \<in> fst ` set s. backedUp key}"
proof (induction s arbitrary: backup)
  case Nil
  then show ?case by simp
next
  case (Cons p s)
  obtain key v where p: "p = (key, v)" by (cases p)
  have "fst ` set (AList.update key (Item v) backup) = insert key (fst ` set backup)"
    using dom_update[of key "Item v" backup] by (simp add: dom_map_of_conv_image_fst)
  then show ?case
    unfolding p by (auto simp add: Cons.IH)
qed

lemma backup_keys:
  "fst ` set (fst (backupEntireSystem nowIso s))
     = insert ''_metadata'' {key \<in> fst ` set s. backedUp key}"
proof -
  have "fst ` set (AList.update ''_metadata'' m (backupLoop s []))
      = insert ''_metadata'' (fst ` set (backupLoop s []))" for m
    using dom_update[of "''_metadata''" m "backupLoop s []"]
    by (simp add: dom_map_of_conv_image_fst)
  then show ?thesis
    unfolding backupEntireSystem_def Let_def by (simp add: backupLoop_keys)
qed

lemma history_key_not_backedUp:
  assumes "metricId \<in> {''tier1-auditions'', ''tier2-auditions'', ''callbacks-count'', ''roles-count''}"
  shows "\<not> backedUp (metricId @ ''_history_'' @ month)"
  using assms unfolding backedUp_def startsWith_def by auto

text \<open>
  C6. On a store that holds a metric log \<open>tier1-auditions_history_2025-01\<close> and its count
  \<open>mastery_tier1-auditions_2025-01\<close>, the backup holds the count and \<open>_metadata\<close> and nothing
  else: the log is left out.
\<close>

theorem backup_omits_history:
  "fst (backupEntireSystem nowIso historyStore) =
     [(''mastery_tier1-auditions_2025-01'', Item ''1''),
      (''_metadata'', Meta \<lparr> version = ''2.0'', backupDate = nowIso, totalEntries = 0,
                             system = ''Hollywood Mastery Destiny Protocol'' \<rparr>)]
   \<and> ''tier1-auditions_history_2025-01'' \<in> fst ` set historyStore
   \<and> ''tier1-auditions_history_2025-01'' \<notin> fst ` set (fst (backupEntireSystem nowIso historyStore))"
  unfolding backupEntireSystem_def historyStore_def Let_def
  by (simp add: backedUp_def startsWith_def)

section \<open>Properties of reading with corruption recovery\<close>

lemma repair_fields:
  "map_of (repair fs) ''domains'' =
     (if falsyProp fs ''domains'' then Some (JObj []) else map_of fs ''domains'')"
  "map_of (repair fs) ''tasks'' =
     (if falsyProp fs ''tasks'' then Some (JArr [] []) else map_of fs ''tasks'')"
  "map_of (repair fs) ''alignment'' =
     (if booleanProp fs ''alignment'' then map_of fs ''alignment'' else Some (JBool False))"
  "name \<notin> {''domains'', ''tasks'', ''alignment''} \<Longrightarrow> map_of (repair fs) name = map_of fs name"
  unfolding repair_def Let_def falsyProp_def booleanProp_def
  by (auto simp add: update_conv' split: option.splits)

text \<open>
  C10. For every key that starts with \<open>'mastery_'\<close>, day key or not, a stored value that
  parses to an object is returned repaired: \<open>domains\<close> is \<open>{}\<close> where it was missing or falsy,
  \<open>tasks\<close> is \<open>[]\<close> where it was missing or falsy, \<open>alignment\<close> is \<open>false\<close> where it was missing
  or not a boolean, and every other property is as stored. A stored value that parses to
  \<open>null\<close>, or that does not parse, gives the fallback; nothing is raised.
\<close>

theorem safeLocalStorageGet_repairs:
  assumes "startsWith key ''mastery_''" and "map_of s key = Some item" and "item \<noteq> []"
  shows "(JSON_parse item = Some (JObj fs) \<longrightarrow>
            (\<exists>fs'. safeLocalStorageGet JSON_parse s key fallback = JObj fs'
               \<and> map_of fs' ''domains''
                   = (if falsyProp fs ''domains'' then Some (JObj []) else map_of fs ''domains'')
               \<and> map_of fs' ''tasks''
                   = (if falsyProp fs ''tasks'' then Some (JArr [] []) else map_of fs ''tasks'')
               \<and> map_of fs' ''alignment''
                   = (if booleanProp fs ''alignment'' then map_of fs ''alignment''
                      else Some (JBool False))
               \<and> \<not> falsyProp fs' ''domains'' \<and> \<not> falsyProp fs' ''tasks''
               \<and> booleanProp fs' ''alignment''
               \<and> (\<forall>name. name \<notin> {''domains'', ''tasks'', ''alignment''}
                     \<longrightarrow> map_of fs' name = map_of fs name)))
    \<and> (JSON_parse item = Some JNull \<longrightarrow> safeLocalStorageGet JSON_parse s key fallback = fallback)
    \<and> (JSON_parse item = None \<longrightarrow> safeLocalStorageGet JSON_parse s key fallback = fallback)"
proof -
  have obj: "safeLocalStorageGet JSON_parse s key fallback = JObj (repair fs)"
    if "JSON_parse item = Some (JObj fs)"
    unfolding safeLocalStorageGet_def using assms that by simp
  have "\<not> falsyProp (repair fs) ''domains'' \<and> \<not> falsyProp (repair fs) ''tasks''
      \<and> booleanProp (repair fs) ''alignment''"
    unfolding falsyProp_def booleanProp_def repair_fields(1,2,3)
    by (auto simp add: falsyProp_def booleanProp_def split: option.splits)
  then have "JSON_parse item = Some (JObj fs) \<longrightarrow>
            (\<exists>fs'. safeLocalStorageGet JSON_parse s key fallback = JObj fs'
               \<and> map_of fs' ''domains''
                   = (if falsyProp fs ''domains'' then Some (JObj []) else map_of fs ''domains'')
               \<and> map_of fs' ''tasks''
                   = (if falsyProp fs ''tasks'' then Some (JArr [] []) else map_of fs ''tasks'')
               \<and> map_of fs' ''alignment''
                   = (if booleanProp fs ''alignment'' then map_of fs ''alignment''
                      else Some (JBool False))
               \<and> \<not> falsyProp fs' ''domains'' \<and> \<not> falsyProp fs' ''tasks''
               \<and> booleanProp fs' ''alignment''
               \<and> (\<forall>name. name \<notin> {''domains'', ''tasks'', ''alignment''}
                     \<longrightarrow> map_of fs' name = map_of fs name))"
    using obj repair_fields[where fs = fs] by (intro impI exI[of _ "repair fs"]) simp
  moreover have "JSON_parse item = Some JNull
      \<longrightarrow> safeLocalStorageGet JSON_parse s key fallback = fallback"
    unfolding safeLocalStorageGet_def using assms by simp
  moreover have "JSON_parse item = None
      \<longrightarrow> safeLocalStorageGet JSON_parse s key fallback = fallback"
    unfolding safeLocalStorageGet_def using assms by simp
  ultimately show ?thesis by blast
qed

theorem safeLocalStorageGet_repairs_witness:
  "startsWith ''mastery_goal_path'' ''mastery_''
   \<and> safeLocalStorageGet (\<lambda>item. Some (JObj [(''ultimateAim'', JStr ''Lead role'')]))
       [(''mastery_goal_path'', ''{...}'')] ''mastery_goal_path'' (JObj [])
     = JObj [(''ultimateAim'', JStr ''Lead role''), (''domains'', JObj []),
             (''tasks'', JArr [] []), (''alignment'', JBool False)]
   \<and> (\<exists>fs'. safeLocalStorageGet (\<lambda>item. Some (JObj [(''ultimateAim'', JStr ''Lead role'')]))
          [(''mastery_goal_path'', ''{...}'')] ''mastery_goal_path'' (JObj []) = JObj fs'
        \<and> map_of fs' ''domains'' = Some (JObj [])
        \<and> map_of fs' ''tasks'' = Some (JArr [] [])
        \<and> map_of fs' ''alignment'' = Some (JBool False))
   \<and> safeLocalStorageGet (\<lambda>item. Some JNull)
       [(''mastery_goal_path'', ''null'')] ''mastery_goal_path'' (JObj []) = JObj []"
proof -
  have p: "startsWith ''mastery_goal_path'' ''mastery_''"
    unfolding startsWith_def by simp
  have direct: "safeLocalStorageGet (\<lambda>item. Some (JObj [(''ultimateAim'', JStr ''Lead role'')]))
       [(''mastery_goal_path'', ''{...}'')] ''mastery_goal_path'' (JObj [])
     = JObj [(''ultimateAim'', JStr ''Lead role''), (''domains'', JObj []),
             (''tasks'', JArr [] []), (''alignment'', JBool False)]"
    using p by (simp add: safeLocalStorageGet_def repair_def falsyProp_def booleanProp_def Let_def)
  from safeLocalStorageGet_repairs[OF p, of "[(''mastery_goal_path'', ''{...}'')]" "''{...}''"
      "\<lambda>item. Some (JObj [(''ultimateAim'', JStr ''Lead role'')])"
      "[(''ultimateAim'', JStr ''Lead role'')]" "JObj []"]
  have "\<exists>fs'. safeLocalStorageGet (\<lambda>item. Some (JObj [(''ultimateAim'', JStr ''Lead role'')]))
          [(''mastery_goal_path'', ''{...}'')] ''mastery_goal_path'' (JObj []) = JObj fs'
        \<and> map_of fs' ''domains'' = Some (JObj [])
        \<and> map_of fs' ''tasks'' = Some (JArr [] [])
        \<and> map_of fs' ''alignment'' = Some (JBool False)"
    by (simp add: falsyProp_def booleanProp_def) blast
  moreover from safeLocalStorageGet_repairs[OF p, of "[(''mastery_goal_path'', ''null'')]"
      "''null''" "\<lambda>item. Some JNull" "[]" "JObj []"]
  have "safeLocalStorageGet (\<lambda>item. Some JNull)
       [(''mastery_goal_path'', ''null'')] ''mastery_goal_path'' (JObj []) = JObj []"
    by simp
  ultimately show ?thesis using p direct by blast
qed

end
